theory Spec2Isabelle
  imports Complex_Main "HOL-Library.Sublist" "HOL-Library.Char_ord" "HOL-Library.List_Lexorder"
begin

section \<open>Image-signature terms and similarity queries\<close>

text \<open>
  A shallow embedding of \<^verbatim>\<open>xapian-extras/imgseek/src/image_terms.cc\<close>: the class
  \<^verbatim>\<open>ImgTerms\<close> turns an image signature into index terms of a document
  (\<^verbatim>\<open>AddTerms\<close>) and builds, from an indexed document, a weighted query
  (\<^verbatim>\<open>querySimilar\<close>).

  Conventions of the embedding:
  \<^item> \<^verbatim>\<open>int\<close> is \<open>int\<close>: the only arithmetic on it is the loop counters, which
    stay between \<^verbatim>\<open>-num_pixels_squared\<close> and \<^verbatim>\<open>num_pixels_squared\<close>;
  \<^item> a \<^verbatim>\<open>double\<close> is the real number it holds. The literals and the arithmetic of the
    constructor are rounded to the nearest \<^verbatim>\<open>double\<close>, as the machine does; the averages
    of a signature and the decoded values are passed on without arithmetic; the entries of
    the \<^verbatim>\<open>float\<close> table of weights are read at the decimal values written in the source;
  \<^item> \<^verbatim>\<open>std::string\<close> is \<open>string\<close>, compared bytewise as \<^verbatim>\<open>std::string\<close> and
    the engine's term lists are;
  \<^item> a C++ exception and the dereference of an invalid iterator are values of the
    type \<open>error\<close>.
\<close>

subsection \<open>Strings\<close>

text \<open>\<^verbatim>\<open>to_string\<close> writes its argument to a \<^verbatim>\<open>std::stringstream\<close>; the source calls it
  on \<^verbatim>\<open>int\<close> only, which prints in decimal with a leading minus sign when negative.\<close>

definition digit_char :: "nat \<Rightarrow> char" where
  "digit_char d = ''0123456789'' ! d"

function digits :: "nat \<Rightarrow> string" where
  "digits n = (if n < 10 then [digit_char n] else digits (n div 10) @ [digit_char (n mod 10)])"
  by pat_completeness auto
termination
  by (relation "measure (\<lambda>n. n)") auto

declare digits.simps [simp del]

definition to_string :: "int \<Rightarrow> string" where
  "to_string t = (if t < 0 then CHR ''-'' # digits (nat (- t)) else digits (nat t))"

text \<open>\<^verbatim>\<open>s.find(start)\<close>: the lowest position at which \<^verbatim>\<open>start\<close> occurs in \<^verbatim>\<open>s\<close>, or
  \<^verbatim>\<open>npos\<close> (here \<open>None\<close>).\<close>

fun find_str :: "string \<Rightarrow> string \<Rightarrow> nat option" where
  "find_str [] start = (if start = [] then Some 0 else None)"
| "find_str (ch # s) start =
     (if prefix start (ch # s) then Some 0 else map_option Suc (find_str s start))"

definition startswith :: "string \<Rightarrow> string \<Rightarrow> bool" where
  "startswith s start = (find_str s start = Some 0)"

subsection \<open>The engine's values: errors, queries, documents, range accelerators\<close>

text \<open>What ends a method without a result: one of the two exceptions of the engine that
  this file names, with its message, or undefined behaviour (reading through the end
  iterator of the weight map, or outside the bounds of a vector).\<close>

datatype error =
    NetworkError string
  | InvalidArgumentError string
  | UndefinedBehaviour

text \<open>Modelled from the spec: the query algebra of the engine (\<^verbatim>\<open>Xapian::Query\<close>, whose
  implementation is not part of this file's source): the default-constructed empty query,
  the single-term query, scale-by-weight and OR-combine. The constructors are kept free:
  a query is the expression that built it.\<close>

datatype Query =
    EmptyQuery
  | TermQuery string
  | OP_SCALE_WEIGHT Query real
  | OP_OR Query Query

type_synonym valueno = nat

text \<open>Modelled from the spec: the document of the engine (\<^verbatim>\<open>Xapian::Document\<close>, whose
  implementation is not part of this file's source), an entity holding a term list, which
  is a set from the engine's perspective and is iterated in byte order, and a set of
  numbered stored fields holding byte strings. Appending a term that the document has
  already leaves the term list as it is; how often a term was appended is not recorded.\<close>

record Document =
  doc_terms :: "string list"
  doc_values :: "valueno \<rightharpoonup> string"

definition add_term :: "string \<Rightarrow> Document \<Rightarrow> Document" where
  "add_term tname d = d\<lparr>doc_terms := insort_insert tname (doc_terms d)\<rparr>"

definition add_value :: "valueno \<Rightarrow> string \<Rightarrow> Document \<Rightarrow> Document" where
  "add_value slot v d = d\<lparr>doc_values := (doc_values d)(slot \<mapsto> v)\<rparr>"

text \<open>Modelled from the spec: reading a stored field. A document that lacks the field is
  treated as one whose field cannot be decoded: the read gives the empty byte string, and
  the decoder decides.\<close>

definition get_value :: "valueno \<Rightarrow> Document \<Rightarrow> string" where
  "get_value slot d = (case doc_values d slot of None \<Rightarrow> [] | Some v \<Rightarrow> v)"

text \<open>Modelled from the spec: the index-ordered skip of the engine's term iterator
  (\<^verbatim>\<open>TermIterator::skip_to\<close>). An iterator is the rest of the term list; the skip advances
  it to the first term that is not below \<^verbatim>\<open>tname\<close>.\<close>

definition skip_to :: "string \<Rightarrow> string list \<Rightarrow> string list" where
  "skip_to tname it = dropWhile (\<lambda>t. t < tname) it"

text \<open>The state of a \<^verbatim>\<open>Xapian::RangeAccelerator\<close> is what its constructor is given: a term
  prefix, the number of the field holding the raw value, the domain and the bucket width.\<close>

record RangeAccelerator =
  acc_prefix :: string
  acc_valnum :: valueno
  acc_min :: real
  acc_max :: real
  acc_step :: real

subsection \<open>Signatures and the \<^verbatim>\<open>ImgTerms\<close> object\<close>

text \<open>\<^verbatim>\<open>ImgSig\<close>: the three coefficient collections, each in the order in which its
  iterator enumerates it, and the three channel averages \<^verbatim>\<open>avgl[0..2]\<close>.\<close>

record ImgSig =
  sig1 :: "int list"
  sig2 :: "int list"
  sig3 :: "int list"
  avgl :: "real \<times> real \<times> real"

record ImgTerms =
  prefix_str :: string
  weightmap :: "string \<rightharpoonup> real"
  colour_vals :: "valueno list"
  colour_average_accels :: "RangeAccelerator list"

definition colourprefix :: "ImgTerms \<Rightarrow> int \<Rightarrow> string" where
  "colourprefix this c = prefix_str this @ to_string c"

definition make_coeff_term :: "ImgTerms \<Rightarrow> int \<Rightarrow> int \<Rightarrow> string" where
  "make_coeff_term this x c = colourprefix this c @ to_string x"

subsection \<open>Collaborators defined outside this file\<close>

text \<open>
  \<^verbatim>\<open>image_terms.cc\<close> uses, and does not define: the half-width
  \<^verbatim>\<open>num_pixels_squared\<close> of the coefficient space (from \<^verbatim>\<open>haar.h\<close>), the weight function
  \<^verbatim>\<open>find_weight\<close> (declared at the top of the file), the encoding and decoding of
  a \<^verbatim>\<open>double\<close> as bytes (\<^verbatim>\<open>serialise-double.h\<close>) and the two operations of the range
  accelerator. They are parameters of the embedding, collected in one record.
  \<^item> \<open>unserialise_double\<close> returns the decoded value or the exception it throws;
  \<^item> \<open>range_terms acc v\<close> are the bucket terms that the accelerator makes searchable
    when it stores \<open>v\<close>, and \<open>query_for_val_distance acc v\<close> is the query it builds
    around \<open>v\<close>: both are a policy of the accelerator that this file does not see.
\<close>

record collaborators =
  num_pixels_squared :: int
  find_weight :: "int \<Rightarrow> int \<Rightarrow> real"
  serialise_double :: "real \<Rightarrow> string"
  unserialise_double :: "string \<Rightarrow> error + real"
  range_terms :: "RangeAccelerator \<Rightarrow> real \<Rightarrow> string list"
  query_for_val_distance :: "RangeAccelerator \<Rightarrow> real \<Rightarrow> Query"

subsection \<open>The weight table and the weight map\<close>

definition weights :: "real list list" where
  "weights =
    [[5.00, 19.21, 34.37],
     [0.83, 1.26, 0.36],
     [1.01, 0.44, 0.45],
     [0.52, 0.53, 0.14],
     [0.47, 0.28, 0.18],
     [0.30, 0.14, 0.27]]"

text \<open>\<^verbatim>\<open>make_weightmap\<close>: the inner loop over the channel \<^verbatim>\<open>c\<close> and the outer loop over
  the position \<^verbatim>\<open>x\<close>; \<^verbatim>\<open>wm[key] = value\<close> inserts the key or overwrites its value.\<close>

function weightmap_inner ::
  "collaborators \<Rightarrow> ImgTerms \<Rightarrow> int \<Rightarrow> int \<Rightarrow> (string \<rightharpoonup> real) \<Rightarrow> (string \<rightharpoonup> real)" where
  "weightmap_inner E this x c wm =
     (if c < 3
      then weightmap_inner E this x (c + 1)
             (wm(make_coeff_term this x c \<mapsto> find_weight E x c))
      else wm)"
  by pat_completeness auto
termination
  by (relation "measure (\<lambda>(E, this, x, c, wm). nat (3 - c))") auto

function weightmap_outer ::
  "collaborators \<Rightarrow> ImgTerms \<Rightarrow> int \<Rightarrow> (string \<rightharpoonup> real) \<Rightarrow> (string \<rightharpoonup> real)" where
  "weightmap_outer E this x wm =
     (if x < num_pixels_squared E
      then weightmap_outer E this (x + 1) (weightmap_inner E this x 0 wm)
      else wm)"
  by pat_completeness auto
termination
  by (relation "measure (\<lambda>(E, this, x, wm). nat (num_pixels_squared E - x))") auto

declare weightmap_inner.simps [simp del] weightmap_outer.simps [simp del]

definition make_weightmap :: "collaborators \<Rightarrow> ImgTerms \<Rightarrow> (string \<rightharpoonup> real)" where
  "make_weightmap E this = weightmap_outer E this (- num_pixels_squared E) Map.empty"

subsection \<open>The constructor\<close>

text \<open>
  The arithmetic of \<^verbatim>\<open>double\<close> (IEEE 754 binary64, round to nearest, ties to even): a
  real number of magnitude in \<^verbatim>\<open>[2^e, 2^(e+1))\<close> is rounded to the nearest multiple of
  \<^verbatim>\<open>2^(e-52)\<close>, the spacing of the doubles there; below the normal range the spacing is
  \<^verbatim>\<open>2^(-1074)\<close>. Every operation rounds its exact result once (no wider intermediate
  format). Overflow is not modelled: the numbers of this file are of magnitude 1.
  A literal is the rounded decimal; negating a \<^verbatim>\<open>double\<close> is exact; a difference and a
  quotient are the rounded exact results.
\<close>

definition round_even :: "real \<Rightarrow> int" where
  "round_even x =
     (let n = \<lfloor>x\<rfloor>; r = x - of_int n
      in if r < 1 / 2 then n else if 1 / 2 < r then n + 1 else if even n then n else n + 1)"

definition pow2 :: "int \<Rightarrow> real" where
  "pow2 e = (if 0 \<le> e then 2 ^ nat e else 1 / 2 ^ nat (- e))"

definition double :: "real \<Rightarrow> real" where
  "double x =
     (if x = 0 then 0
      else let e = max \<lfloor>log 2 \<bar>x\<bar>\<rfloor> (- 1022);
               ulp = pow2 (e - 52)
           in of_int (round_even (x / ulp)) * ulp)"

definition double_sub :: "real \<Rightarrow> real \<Rightarrow> real" where
  "double_sub a b = double (a - b)"

definition double_div :: "real \<Rightarrow> real \<Rightarrow> real" where
  "double_div a b = double (a / b)"

definition Y_MIN :: real where "Y_MIN = double 0.0"
definition Y_MAX :: real where "Y_MAX = double 1.0"
definition I_MIN :: real where "I_MIN = - double 0.523"
definition I_MAX :: real where "I_MAX = double 0.523"
definition Q_MIN :: real where "Q_MIN = - double 0.596"
definition Q_MAX :: real where "Q_MAX = double 0.596"

text \<open>The member initialisers set \<^verbatim>\<open>prefix\<close> and then \<^verbatim>\<open>weightmap\<close> (which reads the
  prefix); the body pushes the three field numbers and the three accelerators.\<close>

definition ImgTerms_ctor ::
  "collaborators \<Rightarrow> string \<Rightarrow> valueno \<Rightarrow> valueno \<Rightarrow> valueno \<Rightarrow> ImgTerms" where
  "ImgTerms_ctor E prefix_arg v1 v2 v3 =
     (let this = \<lparr>prefix_str = prefix_arg, weightmap = Map.empty, colour_vals = [],
                  colour_average_accels = []\<rparr>;
          this = this\<lparr>weightmap := make_weightmap E this\<rparr>;
          this = this\<lparr>colour_vals := colour_vals this @ [v1]\<rparr>;
          this = this\<lparr>colour_vals := colour_vals this @ [v2]\<rparr>;
          this = this\<lparr>colour_vals := colour_vals this @ [v3]\<rparr>;
          this = this\<lparr>colour_average_accels := colour_average_accels this @
                   [\<lparr>acc_prefix = prefix_str this @ ''A0'', acc_valnum = colour_vals this ! 0,
                     acc_min = Y_MIN, acc_max = Y_MAX,
                     acc_step = double_div (double_sub Y_MAX Y_MIN) (double 255.0)\<rparr>]\<rparr>;
          this = this\<lparr>colour_average_accels := colour_average_accels this @
                   [\<lparr>acc_prefix = prefix_str this @ ''A1'', acc_valnum = colour_vals this ! 1,
                     acc_min = I_MIN, acc_max = I_MAX,
                     acc_step = double_div (double_sub I_MAX I_MIN) (double 255.0)\<rparr>]\<rparr>;
          this = this\<lparr>colour_average_accels := colour_average_accels this @
                   [\<lparr>acc_prefix = prefix_str this @ ''A2'', acc_valnum = colour_vals this ! 2,
                     acc_min = Q_MIN, acc_max = Q_MAX,
                     acc_step = double_div (double_sub Q_MAX Q_MIN) (double 255.0)\<rparr>]\<rparr>
      in this)"

subsection \<open>Methods as programs on the object and the document\<close>

text \<open>
  A method runs on the \<^verbatim>\<open>ImgTerms\<close> object (\<^verbatim>\<open>this\<close>) and on the document it is given by
  reference. A program takes this state and returns the state it leaves together with
  its result: the returned value, or the exception that left it.
\<close>

record env =
  self :: ImgTerms
  doc :: Document

type_synonym 'a prog = "env \<Rightarrow> (error + 'a) \<times> env"

definition ret :: "'a \<Rightarrow> 'a prog" where
  "ret x s = (Inr x, s)"

definition raise :: "error \<Rightarrow> 'a prog" where
  "raise e s = (Inl e, s)"

definition seq :: "'a prog \<Rightarrow> ('a \<Rightarrow> 'b prog) \<Rightarrow> 'b prog" where
  "seq m f s = (case m s of (Inl e, s') \<Rightarrow> (Inl e, s') | (Inr x, s') \<Rightarrow> f x s')"

definition this_object :: "ImgTerms prog" where
  "this_object s = (Inr (self s), s)"

definition termlist_begin :: "string list prog" where
  "termlist_begin s = (Inr (doc_terms (doc s)), s)"

definition doc_get_value :: "valueno \<Rightarrow> string prog" where
  "doc_get_value slot s = (Inr (get_value slot (doc s)), s)"

definition doc_add_term :: "string \<Rightarrow> unit prog" where
  "doc_add_term tname s = (Inr (), s\<lparr>doc := add_term tname (doc s)\<rparr>)"

definition doc_add_value :: "valueno \<Rightarrow> string \<Rightarrow> unit prog" where
  "doc_add_value slot v s = (Inr (), s\<lparr>doc := add_value slot v (doc s)\<rparr>)"

text \<open>\<^verbatim>\<open>weightmap.find(t)\<close>: the entry, or the end iterator (\<open>None\<close>).\<close>

definition weightmap_find :: "string \<Rightarrow> real option prog" where
  "weightmap_find tname s = (Inr (weightmap (self s) tname), s)"

text \<open>\<^verbatim>\<open>v[i]\<close> on a vector or an array: defined inside the bounds only.\<close>

definition vector_at :: "'a list \<Rightarrow> int \<Rightarrow> 'a prog" where
  "vector_at v i =
     (if 0 \<le> i \<and> nat i < length v then ret (v ! nat i) else raise UndefinedBehaviour)"

definition array3_at :: "'a \<times> 'a \<times> 'a \<Rightarrow> int \<Rightarrow> 'a prog" where
  "array3_at a i =
     (case a of (a0, a1, a2) \<Rightarrow>
        if i = 0 then ret a0 else if i = 1 then ret a1 else if i = 2 then ret a2
        else raise UndefinedBehaviour)"

text \<open>Appending each term of a list to the document: the first loop of \<^verbatim>\<open>AddTerms\<close>.\<close>

fun add_terms_loop :: "string list \<Rightarrow> unit prog" where
  "add_terms_loop [] = ret ()"
| "add_terms_loop (tname # it) = seq (doc_add_term tname) (\<lambda>_. add_terms_loop it)"

text \<open>Modelled from the spec: \<^verbatim>\<open>RangeAccelerator::add_val\<close>, which is not defined in this
  file: it stores the value in the document's raw field, and the document gets the
  accelerator's searchable bucket terms.\<close>

definition add_val :: "collaborators \<Rightarrow> RangeAccelerator \<Rightarrow> real \<Rightarrow> unit prog" where
  "add_val E acc val =
     seq (doc_add_value (acc_valnum acc) (serialise_double E val))
       (\<lambda>_. add_terms_loop (range_terms E acc val))"

subsection \<open>Indexing: \<^verbatim>\<open>AddTerms\<close>\<close>

text \<open>\<^verbatim>\<open>CoeffTerms\<close> is a set of strings: a sorted list without duplicates, into which
  \<^verbatim>\<open>insert\<close> puts a string that is not there yet.\<close>

fun add_coeff_terms :: "ImgTerms \<Rightarrow> int list \<Rightarrow> int \<Rightarrow> string list \<Rightarrow> string list" where
  "add_coeff_terms this [] c r = r"
| "add_coeff_terms this (x # s) c r =
     add_coeff_terms this s c (insort_insert (make_coeff_term this x c) r)"

definition make_coeff_terms :: "ImgTerms \<Rightarrow> ImgSig \<Rightarrow> string list" where
  "make_coeff_terms this sig =
     (let terms = [];
          terms = add_coeff_terms this (sig1 sig) 0 terms;
          terms = add_coeff_terms this (sig2 sig) 1 terms;
          terms = add_coeff_terms this (sig3 sig) 2 terms
      in terms)"

function add_vals_loop :: "collaborators \<Rightarrow> ImgSig \<Rightarrow> int \<Rightarrow> unit prog" where
  "add_vals_loop E sig c =
     (if c < 3
      then seq this_object (\<lambda>this.
           seq (vector_at (colour_average_accels this) c) (\<lambda>acc.
           seq (array3_at (avgl sig) c) (\<lambda>avg.
           seq (add_val E acc avg) (\<lambda>_.
           add_vals_loop E sig (c + 1)))))
      else ret ())"
  by pat_completeness auto
termination
  by (relation "measure (\<lambda>(E, sig, c). nat (3 - c))") auto

definition AddTerms :: "collaborators \<Rightarrow> ImgSig \<Rightarrow> unit prog" where
  "AddTerms E sig =
     seq this_object (\<lambda>this.
     let terms = make_coeff_terms this sig in
     seq (add_terms_loop terms) (\<lambda>_.
     add_vals_loop E sig 0))"

subsection \<open>Querying: \<^verbatim>\<open>make_coeff_query\<close>, \<^verbatim>\<open>make_averages_query\<close>, \<^verbatim>\<open>querySimilar\<close>\<close>

text \<open>The \<^verbatim>\<open>while\<close> loop of \<^verbatim>\<open>make_coeff_query\<close>; the iterator is the rest of the term
  list. \<^verbatim>\<open>pos->second\<close> is read without comparing \<^verbatim>\<open>pos\<close> with the end of the map.\<close>

fun coeff_scan :: "string \<Rightarrow> string list \<Rightarrow> Query \<Rightarrow> Query prog" where
  "coeff_scan cprefix [] query = ret query"
| "coeff_scan cprefix (tname # it) query =
     (if startswith tname cprefix
      then seq (weightmap_find tname) (\<lambda>pos.
           case pos of
             None \<Rightarrow> raise UndefinedBehaviour
           | Some w \<Rightarrow>
               let subq = TermQuery tname;
                   subq = OP_SCALE_WEIGHT subq w;
                   query = OP_OR query subq
               in coeff_scan cprefix it query)
      else ret query)"

function coeff_channels :: "int \<Rightarrow> Query \<Rightarrow> Query prog" where
  "coeff_channels c query =
     (if c < 3
      then seq termlist_begin (\<lambda>it.
           seq this_object (\<lambda>this.
           let cprefix = colourprefix this c;
               it = skip_to cprefix it
           in seq (coeff_scan cprefix it query) (\<lambda>query.
              coeff_channels (c + 1) query)))
      else ret query)"
  by pat_completeness auto
termination
  by (relation "measure (\<lambda>(c, query). nat (3 - c))") auto

definition make_coeff_query :: "Query prog" where
  "make_coeff_query = coeff_channels 0 EmptyQuery"

text \<open>The \<^verbatim>\<open>try\<close> block of \<^verbatim>\<open>make_averages_query\<close>: a \<^verbatim>\<open>NetworkError\<close> of the decoder is
  caught and thrown again as an \<^verbatim>\<open>InvalidArgumentError\<close> with the same message; any other
  exception passes.\<close>

definition unserialise_or_invalid :: "collaborators \<Rightarrow> string \<Rightarrow> real prog" where
  "unserialise_or_invalid E doc_val =
     (case unserialise_double E doc_val of
        Inl (NetworkError msg) \<Rightarrow> raise (InvalidArgumentError msg)
      | Inl e \<Rightarrow> raise e
      | Inr val \<Rightarrow> ret val)"

function averages_channels :: "collaborators \<Rightarrow> int \<Rightarrow> Query \<Rightarrow> Query prog" where
  "averages_channels E c query =
     (if c < 3
      then seq this_object (\<lambda>this.
           seq (vector_at (colour_vals this) c) (\<lambda>slot.
           seq (doc_get_value slot) (\<lambda>doc_val.
           seq (unserialise_or_invalid E doc_val) (\<lambda>val.
           seq (vector_at (colour_average_accels this) c) (\<lambda>acc.
           seq (vector_at (weights ! 0) c) (\<lambda>w.
           let subq = OP_SCALE_WEIGHT (query_for_val_distance E acc val) w;
               query = OP_OR query subq
           in averages_channels E (c + 1) query))))))
      else ret query)"
  by pat_completeness auto
termination
  by (relation "measure (\<lambda>(E, c, query). nat (3 - c))") auto

definition make_averages_query :: "collaborators \<Rightarrow> Query prog" where
  "make_averages_query E = averages_channels E 0 EmptyQuery"

text \<open>\<^verbatim>\<open>querySimilar\<close> passes both sub-queries as arguments of one constructor call; C++
  leaves the order in which the two arguments are evaluated to the compiler.\<close>

datatype arg_order = CoeffFirst | AveragesFirst

definition querySimilar :: "collaborators \<Rightarrow> arg_order \<Rightarrow> Query prog" where
  "querySimilar E ord =
     (case ord of
        CoeffFirst \<Rightarrow>
          seq make_coeff_query (\<lambda>qc. seq (make_averages_query E) (\<lambda>qa. ret (OP_OR qc qa)))
      | AveragesFirst \<Rightarrow>
          seq (make_averages_query E) (\<lambda>qa. seq make_coeff_query (\<lambda>qc. ret (OP_OR qc qa))))"

declare add_vals_loop.simps [simp del] coeff_channels.simps [simp del]
  averages_channels.simps [simp del]

section \<open>A sample configuration\<close>

text \<open>
  Modelled from the spec: one instance of the collaborators, for the closed instances of
  the theorems. The half-width is the 16384 that the comment of the weight table counts;
  the weight function reads the table of this file (row 0 for the DC position, the last row
  for every other position); a value is stored as two bytes holding its thousandths, and a
  stored field of fewer than two bytes (a truncated or missing field) cannot be decoded,
  which the decoder reports with the transport-layer error; the accelerator contributes one
  bucket term, its own prefix, and queries for it.
\<close>

definition sample_find_weight :: "int \<Rightarrow> int \<Rightarrow> real" where
  "sample_find_weight idx colour = weights ! (if idx = 0 then 0 else 5) ! nat colour"

definition sample_serialise :: "real \<Rightarrow> string" where
  "sample_serialise v =
     (let n = nat (\<lfloor>v * 1000\<rfloor> + 32768) in [char_of (n div 256), char_of (n mod 256)])"

definition sample_unserialise :: "string \<Rightarrow> error + real" where
  "sample_unserialise bytes =
     (if length bytes < 2 then Inl (NetworkError ''Bad encoded double: insufficient data'')
      else Inr ((real (of_char (bytes ! 0) * 256 + of_char (bytes ! 1)) - 32768) / 1000))"

definition sample_collaborators :: collaborators where
  "sample_collaborators =
     \<lparr>num_pixels_squared = 16384,
      find_weight = sample_find_weight,
      serialise_double = sample_serialise,
      unserialise_double = sample_unserialise,
      range_terms = (\<lambda>acc v. [acc_prefix acc]),
      query_for_val_distance = (\<lambda>acc v. TermQuery (acc_prefix acc))\<rparr>"

definition sample_terms :: ImgTerms where
  "sample_terms = ImgTerms_ctor sample_collaborators ''img'' 0 1 2"

text \<open>The signature of the end-to-end scenario; a document without terms and fields; the
  document that indexing the signature into it gives; a document with terms of which none
  is a coefficient term, with the three averages stored; such a document without stored
  averages; and a document whose field of channel 1 is truncated to one byte.\<close>

definition sample_sig :: ImgSig where
  "sample_sig = \<lparr>sig1 = [- 3, 0, 5], sig2 = [2], sig3 = [], avgl = (0.5, 0.0, - 0.1)\<rparr>"

definition empty_doc :: Document where
  "empty_doc = \<lparr>doc_terms = [], doc_values = Map.empty\<rparr>"

definition sample_doc :: Document where
  "sample_doc =
     \<lparr>doc_terms = [''img0-3'', ''img00'', ''img05'', ''img12'', ''imgA0'', ''imgA1'', ''imgA2''],
      doc_values = [0 \<mapsto> sample_serialise 0.5, 1 \<mapsto> sample_serialise 0.0,
                    2 \<mapsto> sample_serialise (- 0.1)]\<rparr>"

definition averages_doc :: Document where
  "averages_doc =
     \<lparr>doc_terms = [''imgA0'', ''imgA1'', ''imgA2'', ''zzz''],
      doc_values = [0 \<mapsto> sample_serialise 0.5, 1 \<mapsto> sample_serialise 0.0,
                    2 \<mapsto> sample_serialise (- 0.1)]\<rparr>"

definition unindexed_doc :: Document where
  "unindexed_doc = \<lparr>doc_terms = [''imgA0'', ''zzz''], doc_values = Map.empty\<rparr>"

definition truncated_doc :: Document where
  "truncated_doc =
     \<lparr>doc_terms = [], doc_values = [0 \<mapsto> sample_serialise 0.5, 1 \<mapsto> ''x'']\<rparr>"

section \<open>Notions used to state the properties\<close>

text \<open>The value of a string of decimal digits.\<close>

definition undigits :: "string \<Rightarrow> nat" where
  "undigits s = foldl (\<lambda>a ch. 10 * a + (of_char ch - 48)) 0 s"

text \<open>The pairs (position, channel) in the order of the two loops of \<^verbatim>\<open>make_weightmap\<close>, the
  assignment that the loop body makes for one pair, and the key of a pair.\<close>

definition weightmap_pairs :: "int \<Rightarrow> (int \<times> int) list" where
  "weightmap_pairs N = List.product [- N..N - 1] [0, 1, 2]"

definition assign_weight ::
  "collaborators \<Rightarrow> ImgTerms \<Rightarrow> int \<times> int \<Rightarrow> (string \<rightharpoonup> real) \<Rightarrow> (string \<rightharpoonup> real)" where
  "assign_weight E this p wm =
     wm(make_coeff_term this (fst p) (snd p) \<mapsto> find_weight E (fst p) (snd p))"

abbreviation coeff_key :: "ImgTerms \<Rightarrow> int \<times> int \<Rightarrow> string" where
  "coeff_key this p \<equiv> make_coeff_term this (fst p) (snd p)"

text \<open>Modelled from the spec: the contract of \<^verbatim>\<open>find_weight\<close>, which this file declares and
  does not define: the weight of a position in \<open>[-N, N)\<close> and a channel among 0, 1, 2 is
  not negative.\<close>

definition weight_contract :: "collaborators \<Rightarrow> bool" where
  "weight_contract E \<longleftrightarrow>
     (\<forall>x \<in> {- num_pixels_squared E..<num_pixels_squared E}. \<forall>c \<in> {0, 1, 2}.
        0 \<le> find_weight E x c)"




text \<open>The terms that the scan of \<^verbatim>\<open>make_coeff_query\<close> visits for channel \<open>c\<close>, and the query
  that the loop body accumulates over a list of terms.\<close>

definition scanned_terms :: "ImgTerms \<Rightarrow> Document \<Rightarrow> int \<Rightarrow> string list" where
  "scanned_terms this d c =
     takeWhile (\<lambda>t. startswith t (colourprefix this c))
       (skip_to (colourprefix this c) (doc_terms d))"

definition weighted_or :: "(string \<rightharpoonup> real) \<Rightarrow> Query \<Rightarrow> string list \<Rightarrow> Query" where
  "weighted_or wm query ts =
     foldl (\<lambda>q t. OP_OR q (OP_SCALE_WEIGHT (TermQuery t) (the (wm t)))) query ts"

text \<open>A program is read-only when it leaves every state as it found it. A program grows
  the document of the object \<open>this\<close> when it leaves the object as it is, removes no term,
  and changes no stored field other than those of the object's accelerators.\<close>

definition readonly :: "'a prog \<Rightarrow> bool" where
  "readonly m \<longleftrightarrow> (\<forall>s. snd (m s) = s)"

definition grows :: "ImgTerms \<Rightarrow> 'a prog \<Rightarrow> bool" where
  "grows this m \<longleftrightarrow>
     (\<forall>s. self s = this \<longrightarrow>
        self (snd (m s)) = this
        \<and> set (doc_terms (doc s)) \<subseteq> set (doc_terms (doc (snd (m s))))
        \<and> (\<forall>slot. slot \<notin> acc_valnum ` set (colour_average_accels this) \<longrightarrow>
              doc_values (doc (snd (m s))) slot = doc_values (doc s) slot))"

text \<open>The document after one \<^verbatim>\<open>add_val\<close>, and after indexing the terms \<open>ts\<close> and the averages
  \<open>avgs\<close> through the accelerators \<open>accs\<close>.\<close>

definition store_average :: "collaborators \<Rightarrow> RangeAccelerator \<Rightarrow> real \<Rightarrow> Document \<Rightarrow> Document" where
  "store_average E acc val d =
     d\<lparr>doc_values := (doc_values d)(acc_valnum acc \<mapsto> serialise_double E val),
       doc_terms := fold insort_insert (range_terms E acc val) (doc_terms d)\<rparr>"

definition indexed_doc ::
  "collaborators \<Rightarrow> string list \<Rightarrow> RangeAccelerator list \<Rightarrow> real list \<Rightarrow> Document \<Rightarrow> Document" where
  "indexed_doc E ts accs avgs d =
     d\<lparr>doc_terms := fold insort_insert (ts @ concat (map2 (range_terms E) accs avgs)) (doc_terms d),
       doc_values := fold (\<lambda>(acc, avg) m. m(acc_valnum acc \<mapsto> serialise_double E avg))
                       (zip accs avgs) (doc_values d)\<rparr>"

section \<open>Decimal strings and coefficient terms\<close>

lemma digits_small: "n < 10 \<Longrightarrow> digits n = [digit_char n]"
  by (simp add: digits.simps)

lemma to_string_0: "to_string 0 = ''0''"
  by (simp add: to_string_def digits_small digit_char_def)

lemma to_string_1: "to_string 1 = ''1''"
  by (simp add: to_string_def digits_small digit_char_def)

lemma to_string_2: "to_string 2 = ''2''"
  by (simp add: to_string_def digits_small digit_char_def)

lemma startswith_iff_prefix: "startswith s start \<longleftrightarrow> prefix start s"
  by (cases s) (auto simp: startswith_def)

lemma of_char_digit_char: "d < 10 \<Longrightarrow> of_char (digit_char d) = 48 + d"
proof -
  assume "d < 10"
  then have "d = 0 \<or> d = 1 \<or> d = 2 \<or> d = 3 \<or> d = 4 \<or> d = 5 \<or> d = 6 \<or> d = 7 \<or> d = 8 \<or> d = 9"
    by arith
  then show ?thesis
    by (auto simp: digit_char_def)
qed

lemma undigits_digits: "undigits (digits n) = n"
proof (induction n rule: digits.induct)
  case (1 n)
  show ?case
  proof (cases "n < 10")
    case True
    then show ?thesis by (simp add: digits_small undigits_def of_char_digit_char)
  next
    case False
    then have "digits n = digits (n div 10) @ [digit_char (n mod 10)]"
      by (subst digits.simps) simp
    moreover have "undigits (digits (n div 10)) = n div 10"
      using 1 False by simp
    ultimately show ?thesis
      by (simp add: undigits_def of_char_digit_char)
  qed
qed

lemma digits_inj: "digits m = digits n \<Longrightarrow> m = n"
  by (metis undigits_digits)

lemma digits_no_minus: "CHR ''-'' \<notin> set (digits n)"
proof (induction n rule: digits.induct)
  case (1 n)
  have d: "digit_char k \<noteq> CHR ''-''" if "k < 10" for k
  proof
    assume e: "digit_char k = CHR ''-''"
    have "(of_char (digit_char k) :: nat) = 48 + k"
      using that by (rule of_char_digit_char)
    with e show False by simp
  qed
  show ?case
  proof (cases "n < 10")
    case True
    then show ?thesis using d [of n] by (auto simp: digits_small)
  next
    case False
    then have "digits n = digits (n div 10) @ [digit_char (n mod 10)]"
      by (subst digits.simps) simp
    then show ?thesis using 1 False d [of "n mod 10"] by auto
  qed
qed

text \<open>Printing an integer in decimal loses nothing, so a coefficient term determines its
  position and, among the channels 0, 1 and 2, its channel.\<close>

lemma to_string_inj: "to_string a = to_string b \<Longrightarrow> a = b"
proof -
  assume eq: "to_string a = to_string b"
  have ne: "\<And>m n. CHR ''-'' # digits m \<noteq> digits n"
    using digits_no_minus by (metis list.set_intros(1))
  show ?thesis
  proof (cases "a < 0")
    case a: True
    show ?thesis
    proof (cases "b < 0")
      case True
      with a eq have "nat (- a) = nat (- b)" by (simp add: to_string_def digits_inj)
      with a True show ?thesis by simp
    next
      case False
      with a eq ne show ?thesis by (simp add: to_string_def)
    qed
  next
    case a: False
    show ?thesis
    proof (cases "b < 0")
      case True
      with a eq ne [of "nat (- b)" "nat a"] show ?thesis by (simp add: to_string_def)
    next
      case False
      with a eq have "nat a = nat b" by (simp add: to_string_def digits_inj)
      with a False show ?thesis by simp
    qed
  qed
qed

lemma make_coeff_term_inj:
  assumes "c \<in> {0, 1, 2}" "c' \<in> {0, 1, 2}"
    and "make_coeff_term this x c = make_coeff_term this x' c'"
  shows "x = x' \<and> c = c'"
  using assms
  by (auto simp: make_coeff_term_def colourprefix_def to_string_0 to_string_1 to_string_2
      dest: to_string_inj)

lemma weightmap_inner_unroll:
  "weightmap_inner E this x 0 wm =
     assign_weight E this (x, 2) (assign_weight E this (x, 1) (assign_weight E this (x, 0) wm))"
  by (simp add: weightmap_inner.simps [of _ _ _ 0] weightmap_inner.simps [of _ _ _ 1]
      weightmap_inner.simps [of _ _ _ 2] weightmap_inner.simps [of _ _ _ 3] assign_weight_def)

lemma weightmap_outer_fold:
  "weightmap_outer E this x wm =
     fold (assign_weight E this) (List.product [x..num_pixels_squared E - 1] [0, 1, 2]) wm"
proof (induction E this x wm rule: weightmap_outer.induct)
  case (1 E this x wm)
  show ?case
  proof (cases "x < num_pixels_squared E")
    case True
    then have "[x..num_pixels_squared E - 1] = x # [x + 1..num_pixels_squared E - 1]"
      by (simp add: upto_rec1)
    with True 1 show ?thesis
      by (subst weightmap_outer.simps) (simp add: weightmap_inner_unroll)
  next
    case False
    then show ?thesis
      by (subst weightmap_outer.simps) simp
  qed
qed

text \<open>The two loops of \<^verbatim>\<open>make_weightmap\<close> are a fold of the assignment over the pairs.\<close>

lemma make_weightmap_fold:
  "make_weightmap E this =
     fold (assign_weight E this) (weightmap_pairs (num_pixels_squared E)) Map.empty"
  by (simp add: make_weightmap_def weightmap_pairs_def weightmap_outer_fold)

lemma distinct_weightmap_pairs: "distinct (weightmap_pairs N)"
  by (simp add: weightmap_pairs_def distinct_product)

lemma set_weightmap_pairs: "set (weightmap_pairs N) = {- N..<N} \<times> {0, 1, 2}"
  by (auto simp: weightmap_pairs_def)

lemma coeff_key_inj_on: "inj_on (coeff_key this) (A \<times> {0, 1, 2})"
proof (rule inj_onI)
  fix p q assume "p \<in> A \<times> {0, 1, 2}" "q \<in> A \<times> {0, 1, 2}" "coeff_key this p = coeff_key this q"
  then show "p = q"
    using make_coeff_term_inj [of "snd p" "snd q" this "fst p" "fst q"]
    by (auto simp: prod_eq_iff)
qed

lemma fold_assign_other:
  "k \<notin> coeff_key this ` set ps \<Longrightarrow> fold (assign_weight E this) ps wm k = wm k"
  by (induction ps arbitrary: wm) (auto simp: assign_weight_def)

lemma fold_assign_lookup:
  "p \<in> set ps \<Longrightarrow> inj_on (coeff_key this) (set ps) \<Longrightarrow>
   fold (assign_weight E this) ps wm (coeff_key this p) = Some (find_weight E (fst p) (snd p))"
proof (induction ps arbitrary: wm)
  case Nil
  then show ?case by simp
next
  case (Cons q ps)
  have inj: "inj_on (coeff_key this) (set ps)"
    using Cons.prems(2) by (simp add: inj_on_def)
  show ?case
  proof (cases "p \<in> set ps")
    case True
    then show ?thesis using Cons.IH inj by simp
  next
    case False
    with Cons.prems(1) have pq: "p = q" by simp
    have "coeff_key this p \<notin> coeff_key this ` set ps"
    proof
      assume "coeff_key this p \<in> coeff_key this ` set ps"
      then obtain r where r: "r \<in> set ps" "coeff_key this p = coeff_key this r" by auto
      with Cons.prems(2) pq have "p = r" by (auto simp: inj_on_def)
      with r False show False by simp
    qed
    then have "fold (assign_weight E this) ps (assign_weight E this q wm) (coeff_key this p)
        = assign_weight E this q wm (coeff_key this p)"
      by (rule fold_assign_other)
    moreover have "assign_weight E this q wm (coeff_key this q)
        = Some (find_weight E (fst q) (snd q))"
      by (simp add: assign_weight_def)
    ultimately show ?thesis using pq by simp
  qed
qed

lemma dom_fold_assign:
  "dom (fold (assign_weight E this) ps wm) = dom wm \<union> coeff_key this ` set ps"
  by (induction ps arbitrary: wm) (auto simp: assign_weight_def)

lemma make_weightmap_lookup:
  assumes "- num_pixels_squared E \<le> x" "x < num_pixels_squared E" "c \<in> {0, 1, 2}"
  shows "make_weightmap E this (make_coeff_term this x c) = Some (find_weight E x c)"
proof -
  have "(x, c) \<in> set (weightmap_pairs (num_pixels_squared E))"
    using assms by (simp add: set_weightmap_pairs)
  moreover have "inj_on (coeff_key this) (set (weightmap_pairs (num_pixels_squared E)))"
    by (simp add: set_weightmap_pairs coeff_key_inj_on)
  ultimately show ?thesis
    using fold_assign_lookup [of "(x, c)" _ this E Map.empty]
    by (simp add: make_weightmap_fold)
qed

lemma dom_make_weightmap:
  "dom (make_weightmap E this) =
     coeff_key this ` ({- num_pixels_squared E..<num_pixels_squared E} \<times> {0, 1, 2})"
  by (simp add: make_weightmap_fold dom_fold_assign set_weightmap_pairs)


lemma ctor_fields:
  "prefix_str (ImgTerms_ctor E p v1 v2 v3) = p"
  "colour_vals (ImgTerms_ctor E p v1 v2 v3) = [v1, v2, v3]"
  "colour_average_accels (ImgTerms_ctor E p v1 v2 v3) =
     [\<lparr>acc_prefix = p @ ''A0'', acc_valnum = v1, acc_min = Y_MIN, acc_max = Y_MAX,
        acc_step = double_div (double_sub Y_MAX Y_MIN) (double 255.0)\<rparr>,
      \<lparr>acc_prefix = p @ ''A1'', acc_valnum = v2, acc_min = I_MIN, acc_max = I_MAX,
        acc_step = double_div (double_sub I_MAX I_MIN) (double 255.0)\<rparr>,
      \<lparr>acc_prefix = p @ ''A2'', acc_valnum = v3, acc_min = Q_MIN, acc_max = Q_MAX,
        acc_step = double_div (double_sub Q_MAX Q_MIN) (double 255.0)\<rparr>]"
  by (simp_all add: ImgTerms_ctor_def Let_def)

lemma ctor_term_strings:
  "colourprefix (ImgTerms_ctor E p v1 v2 v3) c = p @ to_string c"
  "make_coeff_term (ImgTerms_ctor E p v1 v2 v3) x c = p @ to_string c @ to_string x"
  by (simp_all add: colourprefix_def make_coeff_term_def ctor_fields)

lemma make_coeff_term_prefix_only:
  "prefix_str a = prefix_str b \<Longrightarrow> make_coeff_term a x c = make_coeff_term b x c"
  by (simp add: make_coeff_term_def colourprefix_def)

lemma make_weightmap_prefix_only:
  assumes "prefix_str a = prefix_str b"
  shows "make_weightmap E a = make_weightmap E b"
proof -
  have "assign_weight E a = assign_weight E b"
    using make_coeff_term_prefix_only [OF assms] by (simp add: assign_weight_def fun_eq_iff)
  then show ?thesis by (simp add: make_weightmap_fold)
qed

lemma ctor_weightmap:
  "weightmap (ImgTerms_ctor E p v1 v2 v3) = make_weightmap E (ImgTerms_ctor E p v1 v2 v3)"
proof -
  have "weightmap (ImgTerms_ctor E p v1 v2 v3) =
      make_weightmap E \<lparr>prefix_str = p, weightmap = Map.empty, colour_vals = [],
        colour_average_accels = []\<rparr>"
    by (simp add: ImgTerms_ctor_def Let_def)
  also have "\<dots> = make_weightmap E (ImgTerms_ctor E p v1 v2 v3)"
    by (rule make_weightmap_prefix_only) (simp add: ctor_fields)
  finally show ?thesis .
qed


lemma pow2_powr: "pow2 e = 2 powr (of_int e)"
proof (cases "0 \<le> e")
  case True
  then show ?thesis
    by (simp add: pow2_def powr_int)
next
  case False
  then show ?thesis
    by (simp add: pow2_def powr_int field_simps)
qed

text \<open>Rounding a number whose binade is known, and the doubles of the constructor.\<close>

lemma double_eval:
  assumes "pow2 e \<le> \<bar>x\<bar>" "\<bar>x\<bar> < pow2 (e + 1)" "- 1022 \<le> e"
  shows "double x = of_int (round_even (x / pow2 (e - 52))) * pow2 (e - 52)"
proof -
  have "0 < pow2 e"
    by (simp add: pow2_def)
  with assms(1) have pos: "0 < \<bar>x\<bar>"
    by linarith
  have "\<lfloor>log 2 \<bar>x\<bar>\<rfloor> = e"
    using assms(1,2) pos by (simp add: floor_log_eq_powr_iff pow2_powr)
  with pos assms(3) show ?thesis
    by (simp add: double_def Let_def max_def)
qed

lemma double_literals:
  "double 0.0 = 0"
  "double 1.0 = 1"
  "double 255.0 = 255"
  "double 0.523 = 4710765210229539 / 2 ^ 53"
  "double 0.596 = 5368290755825631 / 2 ^ 53"
proof -
  show "double 0.0 = 0" by (simp add: double_def)
  show "double 1.0 = 1"
    by (subst double_eval [where e = 0]) (simp_all add: pow2_def round_even_def Let_def)
  show "double 255.0 = 255"
    by (subst double_eval [where e = 7]) (simp_all add: pow2_def round_even_def Let_def)
  show "double 0.523 = 4710765210229539 / 2 ^ 53"
    by (subst double_eval [where e = "- 1"]) (simp_all add: pow2_def round_even_def Let_def)
  show "double 0.596 = 5368290755825631 / 2 ^ 53"
    by (subst double_eval [where e = "- 1"]) (simp_all add: pow2_def round_even_def Let_def)
qed

lemma double_255: "double 255 = 255"
  by (subst double_eval [where e = 7]) (simp_all add: pow2_def round_even_def Let_def)

lemma domain_bounds:
  "Y_MIN = 0" "Y_MAX = 1"
  "I_MIN = - (4710765210229539 / 2 ^ 53)" "I_MAX = 4710765210229539 / 2 ^ 53"
  "Q_MIN = - (5368290755825631 / 2 ^ 53)" "Q_MAX = 5368290755825631 / 2 ^ 53"
  by (simp_all only: Y_MIN_def Y_MAX_def I_MIN_def I_MAX_def Q_MIN_def Q_MAX_def double_literals)

lemma bucket_widths:
  "double_div (double_sub Y_MAX Y_MIN) (double 255) = 282578800148737 / 2 ^ 56"
  "double_div (double_sub I_MAX I_MIN) (double 255) = 4729238799289263 / 2 ^ 60"
  "double_div (double_sub Q_MAX Q_MIN) (double 255) = 673667859554589 / 2 ^ 57"
proof -
  have y: "double_sub Y_MAX Y_MIN = 1"
    by (simp add: double_sub_def domain_bounds) (simp add: double_literals [simplified])
  have i: "double_sub I_MAX I_MIN = 4710765210229539 / 2 ^ 52"
    unfolding double_sub_def domain_bounds
    by (subst double_eval [where e = 0]) (simp_all add: pow2_def round_even_def Let_def)
  have q: "double_sub Q_MAX Q_MIN = 5368290755825631 / 2 ^ 52"
    unfolding double_sub_def domain_bounds
    by (subst double_eval [where e = 0]) (simp_all add: pow2_def round_even_def Let_def)
  show "double_div (double_sub Y_MAX Y_MIN) (double 255) = 282578800148737 / 2 ^ 56"
    unfolding y double_div_def double_255
    by (subst double_eval [where e = "- 8"]) (simp_all add: pow2_def round_even_def Let_def)
  show "double_div (double_sub I_MAX I_MIN) (double 255) = 4729238799289263 / 2 ^ 60"
    unfolding i double_div_def double_255
    by (subst double_eval [where e = "- 8"]) (simp_all add: pow2_def round_even_def Let_def)
  show "double_div (double_sub Q_MAX Q_MIN) (double 255) = 673667859554589 / 2 ^ 57"
    unfolding q double_div_def double_255
    by (subst double_eval [where e = "- 8"]) (simp_all add: pow2_def round_even_def Let_def)
qed

lemma ctor_accel_values:
  "colour_average_accels (ImgTerms_ctor E p v1 v2 v3) =
     [\<lparr>acc_prefix = p @ ''A0'', acc_valnum = v1, acc_min = 0, acc_max = 1,
        acc_step = 282578800148737 / 2 ^ 56\<rparr>,
      \<lparr>acc_prefix = p @ ''A1'', acc_valnum = v2, acc_min = - (4710765210229539 / 2 ^ 53),
        acc_max = 4710765210229539 / 2 ^ 53, acc_step = 4729238799289263 / 2 ^ 60\<rparr>,
      \<lparr>acc_prefix = p @ ''A2'', acc_valnum = v3, acc_min = - (5368290755825631 / 2 ^ 53),
        acc_max = 5368290755825631 / 2 ^ 53, acc_step = 673667859554589 / 2 ^ 57\<rparr>]"
  by (simp add: ctor_fields bucket_widths) (simp add: domain_bounds)

section \<open>The methods as state transformers\<close>

lemma seq_ret [simp]: "seq (ret x) f = f x"
  by (simp add: seq_def ret_def fun_eq_iff)

lemma seq_raise [simp]: "seq (raise e) f = raise e"
  by (simp add: seq_def raise_def fun_eq_iff)

lemma seq_this_object [simp]: "seq this_object f s = f (self s) s"
  by (simp add: seq_def this_object_def)

lemma seq_termlist_begin [simp]: "seq termlist_begin f s = f (doc_terms (doc s)) s"
  by (simp add: seq_def termlist_begin_def)

lemma seq_doc_get_value [simp]: "seq (doc_get_value slot) f s = f (get_value slot (doc s)) s"
  by (simp add: seq_def doc_get_value_def)

lemma seq_weightmap_find [simp]: "seq (weightmap_find t) f s = f (weightmap (self s) t) s"
  by (simp add: seq_def weightmap_find_def)

lemma seq_result:
  "m s = (r, s') \<Longrightarrow> seq m f s = (case r of Inl e \<Rightarrow> (Inl e, s') | Inr x \<Rightarrow> f x s')"
  by (simp add: seq_def split: sum.splits)

text \<open>The result of the \<^verbatim>\<open>while\<close> loop: the terms it visits are the longest run of terms with the
  prefix at the front of the iterator; the loop fails exactly when one of them has no
  weight.\<close>

lemma coeff_scan_eq:
  "coeff_scan cp it query s =
     (if \<forall>t \<in> set (takeWhile (\<lambda>t. startswith t cp) it). weightmap (self s) t \<noteq> None
      then Inr (weighted_or (weightmap (self s)) query (takeWhile (\<lambda>t. startswith t cp) it))
      else Inl UndefinedBehaviour, s)"
proof (induction it arbitrary: query)
  case Nil
  then show ?case by (simp add: ret_def weighted_or_def)
next
  case (Cons t it)
  show ?case
  proof (cases "startswith t cp")
    case False
    then show ?thesis by (simp add: ret_def weighted_or_def)
  next
    case True
    show ?thesis
    proof (cases "weightmap (self s) t")
      case None
      with True show ?thesis by (simp add: raise_def)
    next
      case (Some w)
      with True Cons.IH show ?thesis by (simp add: weighted_or_def)
    qed
  qed
qed

lemma coeff_channels_step:
  "c < 3 \<Longrightarrow> coeff_channels c query s =
     (if \<forall>t \<in> set (scanned_terms (self s) (doc s) c). weightmap (self s) t \<noteq> None
      then coeff_channels (c + 1)
             (weighted_or (weightmap (self s)) query (scanned_terms (self s) (doc s) c)) s
      else (Inl UndefinedBehaviour, s))"
  by (subst coeff_channels.simps)
    (auto simp add: Let_def seq_result [OF coeff_scan_eq] scanned_terms_def)

lemma coeff_channels_end: "coeff_channels 3 query s = (Inr query, s)"
  by (subst coeff_channels.simps) (simp add: ret_def)

lemma weighted_or_append:
  "weighted_or wm (weighted_or wm q ts) us = weighted_or wm q (ts @ us)"
  by (simp add: weighted_or_def)

lemma make_coeff_query_eq:
  "make_coeff_query s =
     (if \<forall>c \<in> {0, 1, 2}. \<forall>t \<in> set (scanned_terms (self s) (doc s) c). weightmap (self s) t \<noteq> None
      then Inr (weighted_or (weightmap (self s)) EmptyQuery
             (scanned_terms (self s) (doc s) 0 @ scanned_terms (self s) (doc s) 1
              @ scanned_terms (self s) (doc s) 2))
      else Inl UndefinedBehaviour, s)"
proof -
  let ?ok = "\<lambda>c. \<forall>t \<in> set (scanned_terms (self s) (doc s) c). weightmap (self s) t \<noteq> None"
  show ?thesis
  proof (cases "?ok 0 \<and> ?ok 1 \<and> ?ok 2")
    case True
    then show ?thesis
      by (simp add: make_coeff_query_def coeff_channels_step coeff_channels_end
          weighted_or_append del: not_None_eq)
  next
    case False
    then show ?thesis
      by (auto simp add: make_coeff_query_def coeff_channels_step coeff_channels_end
          simp del: not_None_eq)
  qed
qed

lemma scanned_terms_subset:
  "t \<in> set (scanned_terms this d c) \<Longrightarrow>
     t \<in> set (doc_terms d) \<and> startswith t (colourprefix this c)"
  unfolding scanned_terms_def skip_to_def
  by (meson set_dropWhileD set_takeWhileD)

lemma scanned_terms_empty:
  "\<forall>t \<in> set (doc_terms d). \<not> startswith t (colourprefix this c) \<Longrightarrow> scanned_terms this d c = []"
  using scanned_terms_subset [of _ this d c] by (cases "scanned_terms this d c") auto

text \<open>Read-only programs: the primitives that read the object or the document, and what is
  composed of them.\<close>

lemma readonly_seq: "readonly m \<Longrightarrow> (\<And>x. readonly (f x)) \<Longrightarrow> readonly (seq m f)"
  unfolding readonly_def seq_def
  by (metis (mono_tags, lifting) case_prod_beta old.sum.simps(5,6) prod.collapse snd_conv sum.exhaust_sel)

lemma readonly_primitives:
  "readonly (ret x)" "readonly (raise e)" "readonly this_object" "readonly termlist_begin"
  "readonly (doc_get_value slot)" "readonly (weightmap_find t)" "readonly (vector_at v i)"
  "readonly (unserialise_or_invalid E bytes)"
  by (auto simp: readonly_def ret_def raise_def this_object_def termlist_begin_def
      doc_get_value_def weightmap_find_def vector_at_def unserialise_or_invalid_def
      split: sum.splits error.splits)

lemma readonly_averages_channels: "readonly (averages_channels E c query)"
proof (induction E c query rule: averages_channels.induct)
  case (1 E c query)
  show ?case
  proof (cases "c < 3")
    case True
    have ih: "readonly (averages_channels E (c + 1)
        (OP_OR query (OP_SCALE_WEIGHT (query_for_val_distance E acc val) w)))" for acc val w
      by (rule 1 [OF True refl refl])
    show ?thesis
      by (subst averages_channels.simps)
        (simp add: True Let_def, intro readonly_seq readonly_primitives ih)
  next
    case False
    then show ?thesis
      by (subst averages_channels.simps) (simp add: readonly_primitives)
  qed
qed

lemma readonly_make_averages_query: "readonly (make_averages_query E)"
  by (simp add: make_averages_query_def readonly_averages_channels)

lemma readonly_make_coeff_query: "readonly make_coeff_query"
  by (simp add: readonly_def make_coeff_query_eq)

lemma readonly_querySimilar: "readonly (querySimilar E ord)"
  by (cases ord)
    (auto simp: querySimilar_def
      intro!: readonly_seq readonly_primitives readonly_make_averages_query readonly_make_coeff_query)

lemma readonly_run: "readonly m \<Longrightarrow> m s = (fst (m s), s)"
  by (metis prod.collapse readonly_def)

text \<open>One iteration of the loop of \<^verbatim>\<open>make_averages_query\<close>.\<close>

lemma averages_channels_step:
  assumes "0 \<le> c" "c < 3" "nat c < length (colour_vals (self s))"
    "nat c < length (colour_average_accels (self s))"
  shows "averages_channels E c query s =
    (case unserialise_double E (get_value (colour_vals (self s) ! nat c) (doc s)) of
       Inl (NetworkError msg) \<Rightarrow> (Inl (InvalidArgumentError msg), s)
     | Inl e \<Rightarrow> (Inl e, s)
     | Inr val \<Rightarrow>
         averages_channels E (c + 1)
           (OP_OR query (OP_SCALE_WEIGHT
              (query_for_val_distance E (colour_average_accels (self s) ! nat c) val)
              (weights ! 0 ! nat c))) s)"
proof -
  have w: "nat c < length (weights ! 0)"
    using assms by (simp add: weights_def)
  show ?thesis
    using assms w
    by (subst averages_channels.simps)
      (simp add: vector_at_def unserialise_or_invalid_def Let_def raise_def
        split: sum.splits error.splits)
qed

lemma averages_channels_end: "averages_channels E 3 query s = (Inr query, s)"
  by (subst averages_channels.simps) (simp add: ret_def)

lemma averages_never_network:
  "fst (averages_channels E c query s) \<noteq> Inl (NetworkError msg)"
proof (induction E c query arbitrary: s rule: averages_channels.induct)
  case (1 E c query)
  show ?case
  proof (cases "c < 3")
    case True
    show ?thesis
      using 1 [OF True]
      by (subst averages_channels.simps)
        (auto simp: True Let_def vector_at_def unserialise_or_invalid_def raise_def ret_def
          seq_def doc_get_value_def this_object_def
          split: sum.splits error.splits prod.splits if_splits)
  next
    case False
    then show ?thesis
      by (subst averages_channels.simps) (simp add: ret_def)
  qed
qed

lemma add_terms_loop_eq:
  "add_terms_loop ts s =
     (Inr (), s\<lparr>doc := (doc s)\<lparr>doc_terms := fold insort_insert ts (doc_terms (doc s))\<rparr>\<rparr>)"
  by (induction ts arbitrary: s) (simp_all add: ret_def seq_def doc_add_term_def add_term_def)

lemma add_val_eq:
  "add_val E acc val s = (Inr (), s\<lparr>doc := store_average E acc val (doc s)\<rparr>)"
  by (simp add: add_val_def seq_def doc_add_value_def add_value_def add_terms_loop_eq
      store_average_def)

lemma add_vals_loop_eq:
  assumes "colour_average_accels (self s) = a0 # a1 # a2 # rest" "avgl sig = (g0, g1, g2)"
  shows "add_vals_loop E sig 0 s =
     (Inr (), s\<lparr>doc := store_average E a2 g2 (store_average E a1 g1
                          (store_average E a0 g0 (doc s)))\<rparr>)"
  using assms
  by (simp add: add_vals_loop.simps [of _ _ 0] add_vals_loop.simps [of _ _ 1]
      add_vals_loop.simps [of _ _ 2] add_vals_loop.simps [of _ _ 3]
      vector_at_def array3_at_def seq_result [OF add_val_eq] ret_def)

lemma AddTerms_eq:
  assumes "colour_average_accels (self s) = a0 # a1 # a2 # rest" "avgl sig = (g0, g1, g2)"
  shows "AddTerms E sig s =
     (Inr (), s\<lparr>doc := store_average E a2 g2 (store_average E a1 g1 (store_average E a0 g0
        ((doc s)\<lparr>doc_terms :=
           fold insort_insert (make_coeff_terms (self s) sig) (doc_terms (doc s))\<rparr>)))\<rparr>)"
  using assms
  by (simp add: AddTerms_def Let_def seq_result [OF add_terms_loop_eq] add_vals_loop_eq)

lemma set_fold_insort_insert: "set (fold insort_insert ts xs) = set xs \<union> set ts"
  by (induction ts arbitrary: xs) (auto simp: set_insort_insert)

lemma fold_insort_insert_absorb: "set ts \<subseteq> set xs \<Longrightarrow> fold insort_insert ts xs = xs"
  by (induction ts arbitrary: xs) (auto simp: insort_insert_triv)

lemma distinct_fold_insort_insert: "distinct xs \<Longrightarrow> distinct (fold insort_insert ts xs)"
  by (induction ts arbitrary: xs) (auto simp: distinct_insort_insert)

lemma sorted_fold_insort_insert: "sorted xs \<Longrightarrow> sorted (fold insort_insert ts xs)"
  by (induction ts arbitrary: xs) (auto simp: sorted_insort_insert)

lemma set_add_coeff_terms:
  "set (add_coeff_terms this xs c r) = set r \<union> (\<lambda>x. make_coeff_term this x c) ` set xs"
  by (induction xs arbitrary: r) (auto simp: set_insort_insert)

lemma sorted_add_coeff_terms: "sorted r \<Longrightarrow> sorted (add_coeff_terms this xs c r)"
  by (induction xs arbitrary: r) (auto simp: sorted_insort_insert)

lemma distinct_add_coeff_terms: "distinct r \<Longrightarrow> distinct (add_coeff_terms this xs c r)"
  by (induction xs arbitrary: r) (auto simp: distinct_insort_insert)

lemma set_make_coeff_terms:
  "set (make_coeff_terms this sig) =
     (\<lambda>x. make_coeff_term this x 0) ` set (sig1 sig)
     \<union> (\<lambda>x. make_coeff_term this x 1) ` set (sig2 sig)
     \<union> (\<lambda>x. make_coeff_term this x 2) ` set (sig3 sig)"
  by (simp add: make_coeff_terms_def set_add_coeff_terms)

lemma sorted_make_coeff_terms: "sorted (make_coeff_terms this sig)"
  by (simp add: make_coeff_terms_def sorted_add_coeff_terms)

lemma distinct_make_coeff_terms: "distinct (make_coeff_terms this sig)"
  by (simp add: make_coeff_terms_def distinct_add_coeff_terms)

lemma make_coeff_terms_cong:
  assumes "set (sig1 a) = set (sig1 b)" "set (sig2 a) = set (sig2 b)" "set (sig3 a) = set (sig3 b)"
  shows "make_coeff_terms this a = make_coeff_terms this b"
proof (rule sorted_distinct_set_unique)
  show "set (make_coeff_terms this a) = set (make_coeff_terms this b)"
    using assms by (simp add: set_make_coeff_terms)
qed (simp_all add: sorted_make_coeff_terms distinct_make_coeff_terms)

text \<open>Programs that only grow the document.\<close>

lemma grows_seq:
  assumes "grows this m" "\<And>x. grows this (f x)"
  shows "grows this (seq m f)"
  unfolding grows_def
proof (intro allI impI)
  fix s :: env assume s: "self s = this"
  obtain r s' where ms: "m s = (r, s')" by (cases "m s")
  have s': "snd (m s) = s'" using ms by simp
  from assms(1) s have "self (snd (m s)) = this
      \<and> set (doc_terms (doc s)) \<subseteq> set (doc_terms (doc (snd (m s))))
      \<and> (\<forall>slot. slot \<notin> acc_valnum ` set (colour_average_accels this) \<longrightarrow>
            doc_values (doc (snd (m s))) slot = doc_values (doc s) slot)"
    unfolding grows_def by blast
  then have m: "self s' = this" "set (doc_terms (doc s)) \<subseteq> set (doc_terms (doc s'))"
    "\<forall>slot. slot \<notin> acc_valnum ` set (colour_average_accels this) \<longrightarrow>
        doc_values (doc s') slot = doc_values (doc s) slot"
    unfolding s' by blast+
  show "self (snd (seq m f s)) = this
        \<and> set (doc_terms (doc s)) \<subseteq> set (doc_terms (doc (snd (seq m f s))))
        \<and> (\<forall>slot. slot \<notin> acc_valnum ` set (colour_average_accels this) \<longrightarrow>
              doc_values (doc (snd (seq m f s))) slot = doc_values (doc s) slot)"
  proof (cases r)
    case (Inl e)
    with ms m show ?thesis by (simp add: seq_def)
  next
    case (Inr x)
    then have eq: "seq m f s = f x s'" using ms by (simp add: seq_def)
    have "grows this (f x)" by (rule assms(2))
    with m(1) have "self (snd (f x s')) = this
      \<and> set (doc_terms (doc s')) \<subseteq> set (doc_terms (doc (snd (f x s'))))
      \<and> (\<forall>slot. slot \<notin> acc_valnum ` set (colour_average_accels this) \<longrightarrow>
          doc_values (doc (snd (f x s'))) slot = doc_values (doc s') slot)"
      unfolding grows_def by blast
    with m show ?thesis unfolding eq by auto
  qed
qed

lemma grows_readonly: "readonly m \<Longrightarrow> grows this m"
  by (simp add: grows_def readonly_def)

lemma grows_this_object: "grows this (f this) \<Longrightarrow> grows this (seq this_object f)"
  by (simp add: grows_def)

lemma grows_vector_at: "(\<And>x. x \<in> set v \<Longrightarrow> grows this (f x)) \<Longrightarrow> grows this (seq (vector_at v i) f)"
  by (cases "0 \<le> i \<and> nat i < length v")
    (simp_all add: vector_at_def grows_readonly readonly_primitives)

lemma grows_add_terms_loop: "grows this (add_terms_loop ts)"
  by (auto simp: grows_def add_terms_loop_eq set_fold_insort_insert)

lemma grows_add_val:
  "acc \<in> set (colour_average_accels this) \<Longrightarrow> grows this (add_val E acc val)"
  by (auto simp: grows_def add_val_eq store_average_def set_fold_insort_insert)

lemma grows_add_vals_loop: "grows this (add_vals_loop E sig c)"
proof (induction E sig c rule: add_vals_loop.induct)
  case (1 E sig c)
  show ?case
  proof (cases "c < 3")
    case True
    have ih: "grows this (add_vals_loop E sig (c + 1))"
      by (rule 1 [OF True])
    have arr: "grows this (seq (array3_at (avgl sig) c) f)" if "\<And>x. grows this (f x)" for f
    proof (rule grows_seq)
      show "grows this (array3_at (avgl sig) c)"
        by (rule grows_readonly)
          (auto simp: readonly_def array3_at_def ret_def raise_def split: prod.splits)
    qed (rule that)
    show ?thesis
      by (subst add_vals_loop.simps)
        (simp add: True,
          intro grows_this_object grows_vector_at arr grows_seq grows_add_val ih)
  next
    case False
    then show ?thesis
      by (subst add_vals_loop.simps) (simp add: grows_readonly readonly_primitives)
  qed
qed

lemma grows_AddTerms: "grows this (AddTerms E sig)"
  unfolding AddTerms_def Let_def
  by (intro grows_this_object grows_seq grows_add_terms_loop grows_add_vals_loop)

section \<open>The sample configuration, evaluated\<close>

lemma to_string_small:
  "0 \<le> t \<Longrightarrow> t < 10 \<Longrightarrow> to_string t = [digit_char (nat t)]"
  "- 10 < t \<Longrightarrow> t < 0 \<Longrightarrow> to_string t = [CHR ''-'', digit_char (nat (- t))]"
  by (simp_all add: to_string_def digits_small)

lemma sample_terms_fields:
  "prefix_str sample_terms = ''img''"
  "colour_vals sample_terms = [0, 1, 2]"
  "colour_average_accels sample_terms =
     [\<lparr>acc_prefix = ''imgA0'', acc_valnum = 0, acc_min = 0, acc_max = 1,
        acc_step = 282578800148737 / 2 ^ 56\<rparr>,
      \<lparr>acc_prefix = ''imgA1'', acc_valnum = 1, acc_min = - (4710765210229539 / 2 ^ 53),
        acc_max = 4710765210229539 / 2 ^ 53, acc_step = 4729238799289263 / 2 ^ 60\<rparr>,
      \<lparr>acc_prefix = ''imgA2'', acc_valnum = 2, acc_min = - (5368290755825631 / 2 ^ 53),
        acc_max = 5368290755825631 / 2 ^ 53, acc_step = 673667859554589 / 2 ^ 57\<rparr>]"
  by (simp_all add: sample_terms_def ctor_fields(1,2) ctor_accel_values)

lemma sample_decode:
  "sample_unserialise [] = Inl (NetworkError ''Bad encoded double: insufficient data'')"
  "sample_unserialise ''x'' = Inl (NetworkError ''Bad encoded double: insufficient data'')"
  "sample_unserialise (sample_serialise (1 / 2)) = Inr (1 / 2)"
  "sample_unserialise (sample_serialise 0) = Inr 0"
  "sample_unserialise (sample_serialise (- (1 / 10))) = Inr (- (1 / 10))"
  by (simp_all add: sample_unserialise_def sample_serialise_def Let_def)

lemma sample_AddTerms:
  "AddTerms sample_collaborators sample_sig \<lparr>self = sample_terms, doc = empty_doc\<rparr> =
     (Inr (), \<lparr>self = sample_terms, doc = sample_doc\<rparr>)"
  by (simp add: AddTerms_eq [where ?a0.0 = "colour_average_accels sample_terms ! 0"
        and ?a1.0 = "colour_average_accels sample_terms ! 1"
        and ?a2.0 = "colour_average_accels sample_terms ! 2" and rest = "[]"
        and ?g0.0 = "0.5" and ?g1.0 = "0.0" and ?g2.0 = "- 0.1"]
      sample_terms_fields sample_sig_def empty_doc_def sample_doc_def store_average_def
      sample_collaborators_def make_coeff_terms_def make_coeff_term_def colourprefix_def
      to_string_small digit_char_def insort_insert_key_def)

section \<open>Running the query builders and the indexer\<close>

lemma make_averages_query_run:
  "make_averages_query E s = (fst (make_averages_query E s), s)"
  by (rule readonly_run [OF readonly_make_averages_query])

lemma make_coeff_query_run: "make_coeff_query s = (fst (make_coeff_query s), s)"
  by (rule readonly_run [OF readonly_make_coeff_query])

text \<open>\<^verbatim>\<open>querySimilar\<close> in terms of the results of the two builders, for either order of
  evaluation.\<close>

lemma querySimilar_eq:
  "querySimilar E CoeffFirst s =
     (case fst (make_coeff_query s) of
        Inl e \<Rightarrow> Inl e
      | Inr qc \<Rightarrow> (case fst (make_averages_query E s) of
                     Inl e \<Rightarrow> Inl e | Inr qa \<Rightarrow> Inr (OP_OR qc qa)), s)"
  "querySimilar E AveragesFirst s =
     (case fst (make_averages_query E s) of
        Inl e \<Rightarrow> Inl e
      | Inr qa \<Rightarrow> (case fst (make_coeff_query s) of
                     Inl e \<Rightarrow> Inl e | Inr qc \<Rightarrow> Inr (OP_OR qc qa)), s)"
  by (simp_all add: querySimilar_def seq_result [OF make_coeff_query_run]
      seq_result [OF make_averages_query_run] ret_def split: sum.splits)

lemma averages_first_failure:
  assumes wf: "length (colour_vals (self s)) = 3" "length (colour_average_accels (self s)) = 3"
    and c: "c \<in> {0, 1, 2}"
    and ok: "\<forall>c'. 0 \<le> c' \<and> c' < c \<longrightarrow>
              (\<exists>v. unserialise_double E (get_value (colour_vals (self s) ! nat c') (doc s)) = Inr v)"
    and bad: "unserialise_double E (get_value (colour_vals (self s) ! nat c) (doc s))
              = Inl (NetworkError msg)"
  shows "make_averages_query E s = (Inl (InvalidArgumentError msg), s)"
proof -
  consider "c = 0" | "c = 1" | "c = 2" using c by auto
  then show ?thesis
  proof cases
    case 1
    with bad wf show ?thesis
      by (simp add: make_averages_query_def averages_channels_step)
  next
    case 2
    with ok obtain v0 where
      "unserialise_double E (get_value (colour_vals (self s) ! nat 0) (doc s)) = Inr v0"
      by force
    with 2 bad wf show ?thesis
      by (simp add: make_averages_query_def averages_channels_step)
  next
    case 3
    with ok obtain v0 where
      "unserialise_double E (get_value (colour_vals (self s) ! nat 0) (doc s)) = Inr v0"
      by force
    moreover obtain v1 where
      "unserialise_double E (get_value (colour_vals (self s) ! nat 1) (doc s)) = Inr v1"
      using ok [rule_format, of 1] 3 by auto
    ultimately show ?thesis using 3 bad wf
      by (simp add: make_averages_query_def averages_channels_step)
  qed
qed

lemma truncated_doc_channels:
  "unserialise_double sample_collaborators
     (get_value (colour_vals sample_terms ! nat 0) truncated_doc) = Inr (1 / 2)"
  "unserialise_double sample_collaborators
     (get_value (colour_vals sample_terms ! nat 1) truncated_doc)
     = Inl (NetworkError ''Bad encoded double: insufficient data'')"
  by (simp_all add: sample_terms_fields truncated_doc_def get_value_def
      sample_collaborators_def sample_decode)

lemma truncated_doc_earlier_channels:
  "\<forall>c'. 0 \<le> c' \<and> c' < (1::int) \<longrightarrow>
      (\<exists>v. unserialise_double sample_collaborators
             (get_value (colour_vals sample_terms ! nat c') truncated_doc) = Inr v)"
proof (intro allI impI)
  fix c' :: int assume "0 \<le> c' \<and> c' < 1"
  then have "c' = 0" by simp
  then show "\<exists>v. unserialise_double sample_collaborators
             (get_value (colour_vals sample_terms ! nat c') truncated_doc) = Inr v"
    using truncated_doc_channels(1) by blast
qed

lemma empty_doc_channel:
  "unserialise_double sample_collaborators (get_value slot empty_doc)
     = Inl (NetworkError ''Bad encoded double: insufficient data'')"
  by (simp add: empty_doc_def get_value_def sample_collaborators_def sample_decode)

lemma sample_term_strings:
  "colourprefix sample_terms 0 = ''img0''"
  "colourprefix sample_terms 1 = ''img1''"
  "colourprefix sample_terms 2 = ''img2''"
  "make_coeff_term sample_terms (- 3) 0 = ''img0-3''"
  "make_coeff_term sample_terms 0 0 = ''img00''"
  "make_coeff_term sample_terms 5 0 = ''img05''"
  "make_coeff_term sample_terms 2 1 = ''img12''"
  by (simp_all add: colourprefix_def make_coeff_term_def sample_terms_fields to_string_small
      digit_char_def)

lemma averages_doc_query:
  "make_averages_query sample_collaborators \<lparr>self = sample_terms, doc = averages_doc\<rparr> =
     (Inr (OP_OR (OP_OR (OP_OR EmptyQuery
        (OP_SCALE_WEIGHT (TermQuery ''imgA0'') 5.00))
        (OP_SCALE_WEIGHT (TermQuery ''imgA1'') 19.21))
        (OP_SCALE_WEIGHT (TermQuery ''imgA2'') 34.37)),
      \<lparr>self = sample_terms, doc = averages_doc\<rparr>)"
  by (simp add: make_averages_query_def averages_channels_step averages_channels_end
      sample_terms_fields averages_doc_def get_value_def sample_collaborators_def sample_decode)
    (simp add: weights_def)

lemma unindexed_doc_query:
  "make_averages_query sample_collaborators \<lparr>self = sample_terms, doc = unindexed_doc\<rparr> =
     (Inl (InvalidArgumentError ''Bad encoded double: insufficient data''),
      \<lparr>self = sample_terms, doc = unindexed_doc\<rparr>)"
  by (rule averages_first_failure [where c = 0])
    (simp_all add: sample_terms_fields unindexed_doc_def get_value_def sample_collaborators_def
      sample_decode)

lemma no_channel_terms:
  "\<forall>t \<in> {''imgA0'', ''imgA1'', ''imgA2'', ''zzz''}. \<forall>c \<in> {0, 1, 2}.
     \<not> startswith t (colourprefix sample_terms c)"
  by (simp add: startswith_iff_prefix sample_term_strings)

lemma store_average_fields:
  "doc_terms (store_average E acc val d) = fold insort_insert (range_terms E acc val) (doc_terms d)"
  "doc_values (store_average E acc val d) = (doc_values d)(acc_valnum acc \<mapsto> serialise_double E val)"
  by (simp_all add: store_average_def)

text \<open>The state after \<^verbatim>\<open>AddTerms\<close>, for an object with three accelerators.\<close>

lemma AddTerms_indexed:
  assumes "length (colour_average_accels (self s)) = 3" "avgl sig = (g0, g1, g2)"
  shows "AddTerms E sig s =
     (Inr (), s\<lparr>doc := indexed_doc E (make_coeff_terms (self s) sig)
                         (colour_average_accels (self s)) [g0, g1, g2] (doc s)\<rparr>)"
proof -
  obtain a0 a1 a2 where a: "colour_average_accels (self s) = [a0, a1, a2]"
    using assms(1) by (auto simp: length_Suc_conv numeral_3_eq_3)
  show ?thesis
    by (simp add: AddTerms_eq [OF a assms(2)] a indexed_doc_def store_average_def)
qed

lemma indexed_doc_idem:
  "indexed_doc E ts accs avgs (indexed_doc E ts accs avgs d) = indexed_doc E ts accs avgs d"
proof -
  have t: "fold insort_insert us (fold insort_insert us xs) = fold insort_insert us xs" for us xs
    by (rule fold_insort_insert_absorb) (simp add: set_fold_insort_insert)
  have upd: "fold (\<lambda>(acc, avg) m. m(acc_valnum acc \<mapsto> serialise_double E avg)) ps m
      = m ++ map_of (rev (map (\<lambda>(acc, avg). (acc_valnum acc, serialise_double E avg)) ps))"
    for ps and m :: "valueno \<rightharpoonup> string"
    by (induction ps arbitrary: m) (auto simp: map_add_upd_left fun_eq_iff map_add_def split: option.splits)
  have twice: "m ++ u ++ u = m ++ u" for m u :: "valueno \<rightharpoonup> string"
    by (auto simp: fun_eq_iff map_add_def split: option.splits)
  show ?thesis
    by (simp add: indexed_doc_def t upd twice del: fold_append)
qed

lemma sample_weight_contract: "weight_contract sample_collaborators"
  by (auto simp: weight_contract_def sample_collaborators_def sample_find_weight_def weights_def)

section \<open>The scan on a sorted term list\<close>

lemma le_append_self: "p \<le> p @ (r :: 'a :: linorder list)"
  by (induction p) simp_all

lemma prefix_imp_le: "prefix p t \<Longrightarrow> p \<le> (t :: 'a :: linorder list)"
  by (auto elim!: prefixE simp: le_append_self)

lemma no_prefix_above:
  "p \<le> s \<Longrightarrow> \<not> prefix p s \<Longrightarrow> s \<le> t \<Longrightarrow> \<not> prefix p (t :: 'a :: linorder list)"
proof (induction p arbitrary: s t)
  case Nil
  then show ?case by simp
next
  case (Cons a p)
  show ?case
  proof
    assume pt: "prefix (a # p) t"
    then obtain t' where t: "t = a # t'" and pt': "prefix p t'"
      by (cases t) simp_all
    from Cons.prems(1) obtain b s' where s: "s = b # s'"
      by (cases s) simp_all
    from Cons.prems(3) have 1: "b < a \<or> b = a \<and> s' \<le> t'"
      unfolding s t by simp
    from Cons.prems(1) have 2: "a < b \<or> a = b \<and> p \<le> s'"
      unfolding s by simp
    from 1 2 have ab: "a = b" by (metis less_asym)
    from 1 2 ab have le: "p \<le> s'" "s' \<le> t'" by simp_all
    from Cons.prems(2) have "\<not> prefix p s'"
      unfolding s ab by simp
    then have "\<not> prefix p t'" by (rule Cons.IH [OF le(1) _ le(2)])
    with pt' show False by simp
  qed
qed

text \<open>When the term list is sorted, as the engine keeps it, the scan of channel \<open>c\<close> visits
  exactly the terms of the document that start with the prefix of the channel.\<close>

lemma scanned_terms_sorted:
  assumes "sorted (doc_terms d)"
  shows "scanned_terms this d c = filter (\<lambda>t. startswith t (colourprefix this c)) (doc_terms d)"
proof -
  let ?p = "colourprefix this c"
  have "takeWhile (\<lambda>t. prefix ?p t) (dropWhile (\<lambda>t. t < ?p) ts) = filter (\<lambda>t. prefix ?p t) ts"
    if "sorted ts" for ts
    using that
  proof (induction ts)
    case Nil
    then show ?case by simp
  next
    case (Cons x ts)
    show ?case
    proof (cases "x < ?p")
      case True
      then have "\<not> prefix ?p x" using prefix_imp_le [of ?p x] by auto
      with True Cons show ?thesis by simp
    next
      case False
      then have px: "?p \<le> x" by simp
      show ?thesis
      proof (cases "prefix ?p x")
        case True
        have "takeWhile (\<lambda>t. prefix ?p t) ts = filter (\<lambda>t. prefix ?p t) ts"
        proof (cases ts)
          case Nil
          then show ?thesis by simp
        next
          case (Cons y ys)
          with Cons.prems px have "\<not> y < ?p" by auto
          then have "dropWhile (\<lambda>t. t < ?p) ts = ts" using Cons by simp
          with Cons.IH Cons.prems show ?thesis by simp
        qed
        with True False show ?thesis by simp
      next
        case np: False
        have "\<not> prefix ?p t" if "t \<in> set ts" for t
          using px np Cons.prems that by (intro no_prefix_above [of ?p x t]) auto
        then have "filter (\<lambda>t. prefix ?p t) ts = []"
          by (simp add: filter_empty_conv)
        with np False show ?thesis by simp
      qed
    qed
  qed
  with assms show ?thesis
    by (simp add: scanned_terms_def skip_to_def startswith_iff_prefix)
qed

text \<open>Indexing keeps the term list sorted and free of duplicates.\<close>

lemma AddTerms_keeps_term_list_sorted:
  assumes "length (colour_average_accels (self s)) = 3"
    and "sorted (doc_terms (doc s))" "distinct (doc_terms (doc s))"
  shows "sorted (doc_terms (doc (snd (AddTerms E sig s))))
       \<and> distinct (doc_terms (doc (snd (AddTerms E sig s))))"
proof -
  obtain g0 g1 g2 where g: "avgl sig = (g0, g1, g2)"
    by (cases "avgl sig") auto
  show ?thesis
    using assms(2,3)
    by (simp add: AddTerms_indexed [OF assms(1) g] indexed_doc_def
        sorted_fold_insort_insert distinct_fold_insort_insert del: fold_append)
qed

section \<open>The claims\<close>

subsection \<open>A stored average that cannot be decoded\<close>

text \<open>C1, as the code has it: when the stored average of channel \<open>c\<close> is the first that the
  decoder rejects (the field is malformed or missing), \<^verbatim>\<open>make_averages_query\<close> raises an
  invalid-argument error that carries the decoder's message \<open>msg\<close>, and so does
  \<^verbatim>\<open>querySimilar\<close> (when it builds the coefficient query first, provided that one does not
  read a missing weight). The error is never the decoder's transport-layer error, and no
  query is returned, so the channel is not dropped silently. The error carries nothing but
  the decoder's message: the channel \<open>c\<close> is not part of it.\<close>

theorem averages_decode_failure:
  assumes wf: "length (colour_vals (self s)) = 3" "length (colour_average_accels (self s)) = 3"
    and c: "c \<in> {0, 1, 2}"
    and ok: "\<forall>c'. 0 \<le> c' \<and> c' < c \<longrightarrow>
              (\<exists>v. unserialise_double E (get_value (colour_vals (self s) ! nat c') (doc s)) = Inr v)"
    and bad: "unserialise_double E (get_value (colour_vals (self s) ! nat c) (doc s))
              = Inl (NetworkError msg)"
  shows "make_averages_query E s = (Inl (InvalidArgumentError msg), s)
       \<and> querySimilar E AveragesFirst s = (Inl (InvalidArgumentError msg), s)
       \<and> (fst (make_coeff_query s) \<noteq> Inl UndefinedBehaviour \<longrightarrow>
            querySimilar E CoeffFirst s = (Inl (InvalidArgumentError msg), s))
       \<and> (\<forall>m. fst (make_averages_query E s) \<noteq> Inl (NetworkError m))"
proof -
  have a: "make_averages_query E s = (Inl (InvalidArgumentError msg), s)"
    using assms by (rule averages_first_failure)
  have "fst (make_coeff_query s) = Inl UndefinedBehaviour \<or> (\<exists>q. fst (make_coeff_query s) = Inr q)"
    by (simp add: make_coeff_query_eq)
  then have "fst (make_coeff_query s) \<noteq> Inl UndefinedBehaviour \<longrightarrow>
      querySimilar E CoeffFirst s = (Inl (InvalidArgumentError msg), s)"
    using a by (auto simp: querySimilar_eq)
  moreover have "querySimilar E AveragesFirst s = (Inl (InvalidArgumentError msg), s)"
    using a by (simp add: querySimilar_eq)
  moreover have "\<forall>m. fst (make_averages_query E s) \<noteq> Inl (NetworkError m)"
    by (simp add: make_averages_query_def averages_never_network)
  ultimately show ?thesis using a by blast
qed

text \<open>C1 at the document whose field of channel 1 is truncated.\<close>

theorem averages_decode_failure_witness:
  "make_averages_query sample_collaborators \<lparr>self = sample_terms, doc = truncated_doc\<rparr> =
     (Inl (InvalidArgumentError ''Bad encoded double: insufficient data''),
      \<lparr>self = sample_terms, doc = truncated_doc\<rparr>)
   \<and> querySimilar sample_collaborators AveragesFirst \<lparr>self = sample_terms, doc = truncated_doc\<rparr> =
     (Inl (InvalidArgumentError ''Bad encoded double: insufficient data''),
      \<lparr>self = sample_terms, doc = truncated_doc\<rparr>)"
proof -
  let ?s = "\<lparr>self = sample_terms, doc = truncated_doc\<rparr>"
  have wf: "length (colour_vals (self ?s)) = 3" "length (colour_average_accels (self ?s)) = 3"
    by (simp_all add: sample_terms_fields)
  have c: "(1::int) \<in> {0, 1, 2}" by simp
  have ok: "\<forall>c'. 0 \<le> c' \<and> c' < (1::int) \<longrightarrow>
      (\<exists>v. unserialise_double sample_collaborators
             (get_value (colour_vals (self ?s) ! nat c') (doc ?s)) = Inr v)"
    using truncated_doc_earlier_channels by simp
  have bad: "unserialise_double sample_collaborators
      (get_value (colour_vals (self ?s) ! nat 1) (doc ?s))
      = Inl (NetworkError ''Bad encoded double: insufficient data'')"
    using truncated_doc_channels(2) by simp
  show ?thesis
    using averages_decode_failure [OF wf c ok bad] by simp
qed

text \<open>C1 as stated fails: the error does not identify the channel. In the empty document
  the field of channel 0 is at fault; in the truncated document channel 0 decodes and
  channel 1 is at fault; both documents give the same error.\<close>

theorem averages_error_hides_channel:
  "unserialise_double sample_collaborators (get_value (colour_vals sample_terms ! 0) empty_doc)
     = Inl (NetworkError ''Bad encoded double: insufficient data'')
   \<and> unserialise_double sample_collaborators (get_value (colour_vals sample_terms ! 0) truncated_doc)
     = Inr 0.5
   \<and> unserialise_double sample_collaborators (get_value (colour_vals sample_terms ! 1) truncated_doc)
     = Inl (NetworkError ''Bad encoded double: insufficient data'')
   \<and> fst (make_averages_query sample_collaborators \<lparr>self = sample_terms, doc = empty_doc\<rparr>)
     = Inl (InvalidArgumentError ''Bad encoded double: insufficient data'')
   \<and> fst (make_averages_query sample_collaborators \<lparr>self = sample_terms, doc = truncated_doc\<rparr>)
     = Inl (InvalidArgumentError ''Bad encoded double: insufficient data'')
   \<and> fst (querySimilar sample_collaborators CoeffFirst \<lparr>self = sample_terms, doc = empty_doc\<rparr>)
     = fst (querySimilar sample_collaborators CoeffFirst
              \<lparr>self = sample_terms, doc = truncated_doc\<rparr>)
   \<and> fst (querySimilar sample_collaborators AveragesFirst \<lparr>self = sample_terms, doc = empty_doc\<rparr>)
     = fst (querySimilar sample_collaborators AveragesFirst
              \<lparr>self = sample_terms, doc = truncated_doc\<rparr>)"
proof -
  have a: "make_averages_query sample_collaborators \<lparr>self = sample_terms, doc = empty_doc\<rparr>
      = (Inl (InvalidArgumentError ''Bad encoded double: insufficient data''),
         \<lparr>self = sample_terms, doc = empty_doc\<rparr>)"
    by (rule averages_first_failure [where c = 0])
      (simp_all add: sample_terms_fields empty_doc_channel)
  have b: "make_averages_query sample_collaborators \<lparr>self = sample_terms, doc = truncated_doc\<rparr>
      = (Inl (InvalidArgumentError ''Bad encoded double: insufficient data''),
         \<lparr>self = sample_terms, doc = truncated_doc\<rparr>)"
    using truncated_doc_earlier_channels truncated_doc_channels(2)
    by (intro averages_first_failure [where c = 1]) (simp_all add: sample_terms_fields)
  have c: "make_coeff_query \<lparr>self = sample_terms, doc = empty_doc\<rparr>
      = (Inr EmptyQuery, \<lparr>self = sample_terms, doc = empty_doc\<rparr>)"
    "make_coeff_query \<lparr>self = sample_terms, doc = truncated_doc\<rparr>
      = (Inr EmptyQuery, \<lparr>self = sample_terms, doc = truncated_doc\<rparr>)"
    by (simp_all add: make_coeff_query_eq scanned_terms_def skip_to_def empty_doc_def
        truncated_doc_def weighted_or_def)
  show ?thesis
    using a b c truncated_doc_channels empty_doc_channel [of 0]
    by (simp add: querySimilar_eq sample_terms_fields)
qed

subsection \<open>The weight lookup of the coefficient query\<close>

text \<open>C2: for an object made by the constructor, when every term of the document that
  starts with one of the three channel prefixes is a coefficient term of a position in
  \<open>[-N, N)\<close> (as \<^verbatim>\<open>AddTerms\<close> produces them from a signature within that range), every
  term that the scan of \<^verbatim>\<open>make_coeff_query\<close> visits has an entry in the weight map, and the
  query is built. The lookup itself is not checked: in any state, \<^verbatim>\<open>make_coeff_query\<close> reads
  through the end iterator exactly when some visited term has no entry.\<close>

theorem make_coeff_query_lookup_defined:
  assumes ctor: "self s = ImgTerms_ctor E p v1 v2 v3"
    and pre: "\<forall>t \<in> set (doc_terms (doc s)). \<forall>c \<in> {0, 1, 2}.
                startswith t (colourprefix (self s) c) \<longrightarrow>
                (\<exists>x c'. - num_pixels_squared E \<le> x \<and> x < num_pixels_squared E
                        \<and> c' \<in> {0, 1, 2} \<and> t = make_coeff_term (self s) x c')"
  shows "(\<forall>c \<in> {0, 1, 2}. \<forall>t \<in> set (scanned_terms (self s) (doc s) c).
            weightmap (self s) t \<noteq> None)
       \<and> (\<exists>q. make_coeff_query s = (Inr q, s))
       \<and> (fst (make_coeff_query s') = Inl UndefinedBehaviour \<longleftrightarrow>
            (\<exists>c \<in> {0, 1, 2}. \<exists>t \<in> set (scanned_terms (self s') (doc s') c).
               weightmap (self s') t = None))"
proof -
  have found: "weightmap (self s) t \<noteq> None"
    if c: "c \<in> {0, 1, 2}" and t: "t \<in> set (scanned_terms (self s) (doc s) c)" for c t
  proof -
    from t have "t \<in> set (doc_terms (doc s))" "startswith t (colourprefix (self s) c)"
      using scanned_terms_subset by blast+
    with pre c obtain x c' where x: "- num_pixels_squared E \<le> x" "x < num_pixels_squared E"
      "c' \<in> {0, 1, 2}" "t = make_coeff_term (self s) x c'"
      by blast
    have "weightmap (self s) (make_coeff_term (self s) x c') = Some (find_weight E x c')"
      unfolding ctor ctor_weightmap using x(1-3) by (rule make_weightmap_lookup)
    with x(4) show ?thesis by simp
  qed
  then have all: "\<forall>c \<in> {0, 1, 2}. \<forall>t \<in> set (scanned_terms (self s) (doc s) c).
      weightmap (self s) t \<noteq> None"
    by blast
  then have "make_coeff_query s =
      (Inr (weighted_or (weightmap (self s)) EmptyQuery
         (scanned_terms (self s) (doc s) 0 @ scanned_terms (self s) (doc s) 1
          @ scanned_terms (self s) (doc s) 2)), s)"
    by (simp add: make_coeff_query_eq del: not_None_eq)
  then have "\<exists>q. make_coeff_query s = (Inr q, s)"
    by blast
  moreover have "fst (make_coeff_query s') = Inl UndefinedBehaviour \<longleftrightarrow>
      (\<exists>c \<in> {0, 1, 2}. \<exists>t \<in> set (scanned_terms (self s') (doc s') c).
         weightmap (self s') t = None)"
    by (auto simp add: make_coeff_query_eq simp del: not_None_eq)
  ultimately show ?thesis using all by blast
qed

text \<open>C2 at the document indexed from the sample signature.\<close>

theorem make_coeff_query_lookup_defined_witness:
  "\<exists>q. make_coeff_query \<lparr>self = sample_terms, doc = sample_doc\<rparr>
     = (Inr q, \<lparr>self = sample_terms, doc = sample_doc\<rparr>)"
proof -
  let ?s = "\<lparr>self = sample_terms, doc = sample_doc\<rparr>"
  have ctor: "self ?s = ImgTerms_ctor sample_collaborators ''img'' 0 1 2"
    by (simp add: sample_terms_def)
  have valid: "\<exists>x c'. - num_pixels_squared sample_collaborators \<le> x
        \<and> x < num_pixels_squared sample_collaborators
        \<and> c' \<in> {0, 1, 2} \<and> t = make_coeff_term (self ?s) x c'"
    if t: "t \<in> {''img0-3'', ''img00'', ''img05'', ''img12''}" for t
  proof -
    have n: "num_pixels_squared sample_collaborators = 16384"
      by (simp add: sample_collaborators_def)
    consider "t = make_coeff_term sample_terms (- 3) 0" | "t = make_coeff_term sample_terms 0 0"
      | "t = make_coeff_term sample_terms 5 0" | "t = make_coeff_term sample_terms 2 1"
      using t unfolding sample_term_strings by blast
    then show ?thesis
    proof cases
      case 1 then show ?thesis unfolding n by (intro exI [of _ "- 3"] exI [of _ 0]) simp
    next
      case 2 then show ?thesis unfolding n by (intro exI [of _ 0] exI [of _ 0]) simp
    next
      case 3 then show ?thesis unfolding n by (intro exI [of _ 5] exI [of _ 0]) simp
    next
      case 4 then show ?thesis unfolding n by (intro exI [of _ 2] exI [of _ 1]) simp
    qed
  qed
  have pre: "\<forall>t \<in> set (doc_terms (doc ?s)). \<forall>c \<in> {0, 1, 2}.
      startswith t (colourprefix (self ?s) c) \<longrightarrow>
      (\<exists>x c'. - num_pixels_squared sample_collaborators \<le> x
             \<and> x < num_pixels_squared sample_collaborators
             \<and> c' \<in> {0, 1, 2} \<and> t = make_coeff_term (self ?s) x c')"
  proof (intro ballI impI)
    fix t c
    assume t: "t \<in> set (doc_terms (doc ?s))" and c: "c \<in> {0, 1, 2}"
      and sw: "startswith t (colourprefix (self ?s) c)"
    have no: "\<not> startswith u (colourprefix sample_terms c)"
      if "u \<in> {''imgA0'', ''imgA1'', ''imgA2''}" for u
      using that c by (elim insertE emptyE) (simp_all add: startswith_iff_prefix sample_term_strings)
    from t have "t \<in> {''img0-3'', ''img00'', ''img05'', ''img12''} \<or> t \<in> {''imgA0'', ''imgA1'', ''imgA2''}"
      by (simp add: sample_doc_def)
    moreover from sw have "startswith t (colourprefix sample_terms c)"
      by simp
    with no [of t] have "t \<notin> {''imgA0'', ''imgA1'', ''imgA2''}"
      by blast
    ultimately have "t \<in> {''img0-3'', ''img00'', ''img05'', ''img12''}"
      by blast
    then show "\<exists>x c'. - num_pixels_squared sample_collaborators \<le> x
             \<and> x < num_pixels_squared sample_collaborators
             \<and> c' \<in> {0, 1, 2} \<and> t = make_coeff_term (self ?s) x c'"
      by (rule valid)
  qed
  show ?thesis
    using make_coeff_query_lookup_defined [OF ctor pre] by blast
qed

subsection \<open>The weight map\<close>

text \<open>C3: the two loops of \<^verbatim>\<open>make_weightmap\<close> make one assignment for each pair of a position
  in \<open>[-N, N)\<close> and a channel among 0, 1, 2, in the order of \<open>weightmap_pairs\<close>, which
  holds every such pair exactly once; no two pairs have the same key, so no assignment
  overwrites another. Afterwards the map, which the constructor stores in the object, gives
  every such pair the weight that \<^verbatim>\<open>find_weight\<close> returned for it: the entry is defined, and it
  is not negative given that \<^verbatim>\<open>find_weight\<close> keeps its contract.\<close>

theorem make_weightmap_complete:
  assumes contract: "weight_contract E"
  shows "make_weightmap E this =
           fold (assign_weight E this) (weightmap_pairs (num_pixels_squared E)) Map.empty
       \<and> distinct (weightmap_pairs (num_pixels_squared E))
       \<and> set (weightmap_pairs (num_pixels_squared E)) =
           {- num_pixels_squared E..<num_pixels_squared E} \<times> {0, 1, 2}
       \<and> distinct (map (coeff_key this) (weightmap_pairs (num_pixels_squared E)))
       \<and> (\<forall>x c. - num_pixels_squared E \<le> x \<and> x < num_pixels_squared E \<and> c \<in> {0, 1, 2} \<longrightarrow>
             (\<exists>w. make_weightmap E this (make_coeff_term this x c) = Some w
                  \<and> w = find_weight E x c \<and> 0 \<le> w))
       \<and> (\<forall>x c. - num_pixels_squared E \<le> x \<and> x < num_pixels_squared E \<and> c \<in> {0, 1, 2} \<longrightarrow>
             weightmap (ImgTerms_ctor E p v1 v2 v3)
               (make_coeff_term (ImgTerms_ctor E p v1 v2 v3) x c) = Some (find_weight E x c))"
proof -
  have nonneg: "\<forall>x c. - num_pixels_squared E \<le> x \<and> x < num_pixels_squared E \<and> c \<in> {0, 1, 2}
      \<longrightarrow> 0 \<le> find_weight E x c"
    using contract unfolding weight_contract_def by auto
  have keys: "distinct (map (coeff_key this) (weightmap_pairs (num_pixels_squared E)))"
    by (simp add: distinct_map distinct_weightmap_pairs set_weightmap_pairs coeff_key_inj_on)
  have look: "\<forall>x c. - num_pixels_squared E \<le> x \<and> x < num_pixels_squared E \<and> c \<in> {0, 1, 2} \<longrightarrow>
      (\<exists>w. make_weightmap E this (make_coeff_term this x c) = Some w
           \<and> w = find_weight E x c \<and> 0 \<le> w)"
    using nonneg make_weightmap_lookup [of E _ _ this] by blast
  have ctor: "\<forall>x c. - num_pixels_squared E \<le> x \<and> x < num_pixels_squared E \<and> c \<in> {0, 1, 2} \<longrightarrow>
      weightmap (ImgTerms_ctor E p v1 v2 v3)
        (make_coeff_term (ImgTerms_ctor E p v1 v2 v3) x c) = Some (find_weight E x c)"
    using make_weightmap_lookup [of E _ _ "ImgTerms_ctor E p v1 v2 v3"]
    by (simp only: ctor_weightmap) blast
  show ?thesis
    using keys look ctor
    by (simp only: make_weightmap_fold [symmetric] distinct_weightmap_pairs
        set_weightmap_pairs simp_thms)
qed

text \<open>C3 at the sample configuration: position -3 of channel 1 and position 0 of
  channel 0.\<close>

theorem make_weightmap_complete_witness:
  "weightmap sample_terms ''img1-3'' = Some 0.14
   \<and> weightmap sample_terms ''img00'' = Some 5"
proof -
  have valid: "- num_pixels_squared sample_collaborators \<le> - 3 \<and> - 3 < num_pixels_squared sample_collaborators
      \<and> (1::int) \<in> {0, 1, 2}"
    "- num_pixels_squared sample_collaborators \<le> 0 \<and> 0 < num_pixels_squared sample_collaborators
      \<and> (0::int) \<in> {0, 1, 2}"
    by (simp_all add: sample_collaborators_def)
  have terms: "make_coeff_term sample_terms (- 3) 1 = ''img1-3''"
    "make_coeff_term sample_terms 0 0 = ''img00''"
    by (simp_all add: colourprefix_def make_coeff_term_def sample_terms_fields to_string_small
        digit_char_def)
  have w: "find_weight sample_collaborators (- 3) 1 = 0.14" "find_weight sample_collaborators 0 0 = 5"
    by (simp_all add: sample_collaborators_def sample_find_weight_def weights_def)
  from make_weightmap_complete [OF sample_weight_contract, of sample_terms "''img''" 0 1 2]
  have "\<forall>x c. - num_pixels_squared sample_collaborators \<le> x \<and> x < num_pixels_squared sample_collaborators
          \<and> c \<in> {0, 1, 2} \<longrightarrow>
        weightmap sample_terms (make_coeff_term sample_terms x c)
          = Some (find_weight sample_collaborators x c)"
    unfolding sample_terms_def [symmetric] by blast
  with valid have "weightmap sample_terms (make_coeff_term sample_terms (- 3) 1)
      = Some (find_weight sample_collaborators (- 3) 1)"
    "weightmap sample_terms (make_coeff_term sample_terms 0 0)
      = Some (find_weight sample_collaborators 0 0)"
    by blast+
  then show ?thesis
    unfolding terms w by simp
qed

subsection \<open>Channel prefixes keep the channels apart\<close>

text \<open>C4: for two distinct channels among 0, 1 and 2, the prefix of one is neither equal
  to nor a string prefix of the prefix of the other, and no coefficient term of one
  channel equals a coefficient term of the other, whatever the two positions.\<close>

theorem colourprefix_channels_apart:
  assumes "c1 \<in> {0, 1, 2}" and "c2 \<in> {0, 1, 2}" and "c1 \<noteq> c2"
  shows "colourprefix this c1 \<noteq> colourprefix this c2
       \<and> \<not> prefix (colourprefix this c1) (colourprefix this c2)
       \<and> (\<forall>p1 p2. make_coeff_term this p1 c1 \<noteq> make_coeff_term this p2 c2)"
  using assms
  by (auto simp: colourprefix_def make_coeff_term_def to_string_0 to_string_1 to_string_2)

text \<open>C4 at the prefix \<open>img\<close>: channels 0 and 1.\<close>

theorem colourprefix_channels_apart_witness:
  "colourprefix \<lparr>prefix_str = ''img'', weightmap = Map.empty, colour_vals = [],
       colour_average_accels = []\<rparr> 0 = ''img0''
   \<and> \<not> prefix ''img0''
       (colourprefix \<lparr>prefix_str = ''img'', weightmap = Map.empty, colour_vals = [],
          colour_average_accels = []\<rparr> 1)
   \<and> make_coeff_term \<lparr>prefix_str = ''img'', weightmap = Map.empty, colour_vals = [],
       colour_average_accels = []\<rparr> 12 0
     \<noteq> make_coeff_term \<lparr>prefix_str = ''img'', weightmap = Map.empty, colour_vals = [],
       colour_average_accels = []\<rparr> 2 1"
  using colourprefix_channels_apart [of 0 1
      "\<lparr>prefix_str = ''img'', weightmap = Map.empty, colour_vals = [],
        colour_average_accels = []\<rparr>"]
  by (simp add: colourprefix_def to_string_0)

subsection \<open>The shape of the averages query\<close>

text \<open>C5: when the three stored averages decode, the averages query is the OR, nested from
  the empty query on in the order of the channels, of the three value-distance queries of
  the accelerators, the one of channel \<open>c\<close> scaled by \<^verbatim>\<open>weights[0][c]\<close>, the row of the
  DC position in the weight table.\<close>

theorem averages_query_shape:
  assumes wf: "length (colour_vals (self s)) = 3" "length (colour_average_accels (self s)) = 3"
    and dec: "\<forall>c \<in> {0, 1, 2}.
               unserialise_double E (get_value (colour_vals (self s) ! nat c) (doc s)) = Inr (val c)"
  shows "make_averages_query E s =
     (Inr (OP_OR (OP_OR (OP_OR EmptyQuery
        (OP_SCALE_WEIGHT
           (query_for_val_distance E (colour_average_accels (self s) ! 0) (val 0))
           (weights ! 0 ! 0)))
        (OP_SCALE_WEIGHT
           (query_for_val_distance E (colour_average_accels (self s) ! 1) (val 1))
           (weights ! 0 ! 1)))
        (OP_SCALE_WEIGHT
           (query_for_val_distance E (colour_average_accels (self s) ! 2) (val 2))
           (weights ! 0 ! 2))), s)
     \<and> weights ! 0 = [5.00, 19.21, 34.37]"
proof -
  have d: "unserialise_double E (get_value (colour_vals (self s) ! nat 0) (doc s)) = Inr (val 0)"
    "unserialise_double E (get_value (colour_vals (self s) ! nat 1) (doc s)) = Inr (val 1)"
    "unserialise_double E (get_value (colour_vals (self s) ! nat 2) (doc s)) = Inr (val 2)"
    using dec by simp_all
  show ?thesis
    using wf d
    by (simp add: make_averages_query_def averages_channels_step averages_channels_end)
      (simp add: weights_def)
qed

text \<open>C5 at the document indexed from the sample signature.\<close>

theorem averages_query_shape_witness:
  "make_averages_query sample_collaborators \<lparr>self = sample_terms, doc = sample_doc\<rparr> =
     (Inr (OP_OR (OP_OR (OP_OR EmptyQuery
        (OP_SCALE_WEIGHT (TermQuery ''imgA0'') 5.00))
        (OP_SCALE_WEIGHT (TermQuery ''imgA1'') 19.21))
        (OP_SCALE_WEIGHT (TermQuery ''imgA2'') 34.37)),
      \<lparr>self = sample_terms, doc = sample_doc\<rparr>)"
proof -
  let ?s = "\<lparr>self = sample_terms, doc = sample_doc\<rparr>"
  let ?val = "\<lambda>c::int. if c = 0 then 1 / 2 else if c = 1 then 0 else - (1 / 10) :: real"
  have wf: "length (colour_vals (self ?s)) = 3" "length (colour_average_accels (self ?s)) = 3"
    by (simp_all add: sample_terms_fields)
  have dec: "\<forall>c \<in> {0, 1, 2}. unserialise_double sample_collaborators
      (get_value (colour_vals (self ?s) ! nat c) (doc ?s)) = Inr (?val c)"
    by (simp add: sample_terms_fields sample_doc_def get_value_def sample_collaborators_def
        sample_decode)
  show ?thesis
    using averages_query_shape [OF wf dec]
    by (simp add: sample_terms_fields sample_collaborators_def weights_def)
qed

subsection \<open>The end-to-end indexing scenario\<close>

text \<open>C6: indexing a signature with the coefficient sets \<open>{0, 5, -3}\<close>, \<open>{2}\<close> and \<open>{}\<close>
  and the averages 0.5, 0.0 and -0.1 succeeds; its coefficient terms are exactly those of
  the positions 0, 5 and -3 under the prefix of channel 0 and of position 2 under the prefix
  of channel 1, none under channel 2; the document gets these terms (next to the bucket
  terms of the three accelerators, which are not coefficient terms), and the three averages
  are stored, encoded, in the three fields of the accelerators.\<close>

theorem AddTerms_scenario:
  assumes ctor: "self s = ImgTerms_ctor E p v1 v2 v3"
    and sig: "set (sig1 sig) = {0, 5, - 3}" "set (sig2 sig) = {2}" "set (sig3 sig) = {}"
      "avgl sig = (0.5, 0.0, - 0.1)"
  shows "fst (AddTerms E sig s) = Inr ()
       \<and> self (snd (AddTerms E sig s)) = self s
       \<and> set (make_coeff_terms (self s) sig) =
            {make_coeff_term (self s) 0 0, make_coeff_term (self s) 5 0,
             make_coeff_term (self s) (- 3) 0, make_coeff_term (self s) 2 1}
       \<and> set (make_coeff_terms (self s) sig) = {p @ ''00'', p @ ''05'', p @ ''0-3'', p @ ''12''}
       \<and> (\<forall>x. make_coeff_term (self s) x 2 \<notin> set (make_coeff_terms (self s) sig))
       \<and> set (doc_terms (doc (snd (AddTerms E sig s)))) =
            set (doc_terms (doc s)) \<union> set (make_coeff_terms (self s) sig)
            \<union> (set (range_terms E (colour_average_accels (self s) ! 0) 0.5)
               \<union> set (range_terms E (colour_average_accels (self s) ! 1) 0.0)
               \<union> set (range_terms E (colour_average_accels (self s) ! 2) (- 0.1)))
       \<and> doc_values (doc (snd (AddTerms E sig s))) =
            (doc_values (doc s))(v1 \<mapsto> serialise_double E 0.5, v2 \<mapsto> serialise_double E 0.0,
                                 v3 \<mapsto> serialise_double E (- 0.1))"
proof -
  have len: "length (colour_average_accels (self s)) = 3"
    by (simp add: ctor ctor_fields)
  have run: "AddTerms E sig s =
      (Inr (), s\<lparr>doc := indexed_doc E (make_coeff_terms (self s) sig)
                            (colour_average_accels (self s)) [0.5, 0.0, - 0.1] (doc s)\<rparr>)"
    using len sig(4) by (rule AddTerms_indexed)
  have terms: "set (make_coeff_terms (self s) sig) =
      {make_coeff_term (self s) 0 0, make_coeff_term (self s) 5 0,
       make_coeff_term (self s) (- 3) 0, make_coeff_term (self s) 2 1}"
    using sig(1-3) by (auto simp: set_make_coeff_terms)
  have strings: "make_coeff_term (self s) 0 0 = p @ ''00''" "make_coeff_term (self s) 5 0 = p @ ''05''"
    "make_coeff_term (self s) (- 3) 0 = p @ ''0-3''" "make_coeff_term (self s) 2 1 = p @ ''12''"
    by (simp_all add: ctor ctor_term_strings to_string_small digit_char_def)
  have none2: "\<forall>x. make_coeff_term (self s) x 2 \<notin> set (make_coeff_terms (self s) sig)"
  proof
    fix x
    have "make_coeff_term (self s) x 2 \<noteq> make_coeff_term (self s) y 0"
      "make_coeff_term (self s) x 2 \<noteq> make_coeff_term (self s) y 1" for y
      using make_coeff_term_inj [of 2 0 "self s" x y] make_coeff_term_inj [of 2 1 "self s" x y]
      by auto
    then show "make_coeff_term (self s) x 2 \<notin> set (make_coeff_terms (self s) sig)"
      using sig(3) by (auto simp: set_make_coeff_terms)
  qed
  have dt: "set (doc_terms (doc (snd (AddTerms E sig s)))) =
      set (doc_terms (doc s)) \<union> set (make_coeff_terms (self s) sig)
      \<union> (set (range_terms E (colour_average_accels (self s) ! 0) 0.5)
         \<union> set (range_terms E (colour_average_accels (self s) ! 1) 0.0)
         \<union> set (range_terms E (colour_average_accels (self s) ! 2) (- 0.1)))"
    unfolding run by (simp add: indexed_doc_def set_fold_insort_insert ctor ctor_fields Un_assoc)
  have dv: "doc_values (doc (snd (AddTerms E sig s))) =
      (doc_values (doc s))(v1 \<mapsto> serialise_double E 0.5, v2 \<mapsto> serialise_double E 0.0,
                           v3 \<mapsto> serialise_double E (- 0.1))"
    unfolding run by (simp add: indexed_doc_def ctor ctor_fields)
  show ?thesis
    using terms none2 dt dv unfolding strings run by simp
qed

text \<open>C6 at the sample configuration and the empty document.\<close>

theorem AddTerms_scenario_witness:
  "set (doc_terms (doc (snd (AddTerms sample_collaborators sample_sig
       \<lparr>self = sample_terms, doc = empty_doc\<rparr>)))) =
     {''img00'', ''img05'', ''img0-3'', ''img12''} \<union> {''imgA0'', ''imgA1'', ''imgA2''}
   \<and> doc_values (doc (snd (AddTerms sample_collaborators sample_sig
       \<lparr>self = sample_terms, doc = empty_doc\<rparr>))) =
     [0 \<mapsto> sample_serialise 0.5, 1 \<mapsto> sample_serialise 0.0, 2 \<mapsto> sample_serialise (- 0.1)]"
proof -
  let ?s = "\<lparr>self = sample_terms, doc = empty_doc\<rparr>"
  have ctor: "self ?s = ImgTerms_ctor sample_collaborators ''img'' 0 1 2"
    by (simp add: sample_terms_def)
  have sig: "set (sig1 sample_sig) = {0, 5, - 3}" "set (sig2 sample_sig) = {2}"
    "set (sig3 sample_sig) = {}" "avgl sample_sig = (0.5, 0.0, - 0.1)"
    by (auto simp: sample_sig_def)
  show ?thesis
    using AddTerms_scenario [OF ctor sig]
    by (simp add: sample_terms_fields sample_term_strings sample_collaborators_def
        empty_doc_def Un_assoc insert_commute)
qed

subsection \<open>Coefficient terms form a set\<close>

text \<open>C7: the coefficient terms of a signature depend only on the set of positions of each
  channel, not on the order in which they are enumerated or on how often a position
  occurs; they hold no duplicate; and indexing a signature a second time changes nothing:
  the document has the same terms and fields as after the first time, and its term list
  has no duplicates.\<close>

theorem coeff_terms_set_semantics:
  "(set (sig1 a) = set (sig1 b) \<and> set (sig2 a) = set (sig2 b) \<and> set (sig3 a) = set (sig3 b)
      \<longrightarrow> make_coeff_terms this a = make_coeff_terms this b)
   \<and> distinct (make_coeff_terms this a)
   \<and> set (make_coeff_terms this a) =
        (\<lambda>x. make_coeff_term this x 0) ` set (sig1 a)
        \<union> (\<lambda>x. make_coeff_term this x 1) ` set (sig2 a)
        \<union> (\<lambda>x. make_coeff_term this x 2) ` set (sig3 a)
   \<and> (length (colour_average_accels (self s)) = 3 \<longrightarrow>
        fst (AddTerms E a s) = Inr ()
        \<and> AddTerms E a (snd (AddTerms E a s)) = AddTerms E a s
        \<and> (distinct (doc_terms (doc s)) \<longrightarrow> distinct (doc_terms (doc (snd (AddTerms E a s))))))"
proof -
  have idem: "fst (AddTerms E a s) = Inr ()
        \<and> AddTerms E a (snd (AddTerms E a s)) = AddTerms E a s
        \<and> (distinct (doc_terms (doc s)) \<longrightarrow> distinct (doc_terms (doc (snd (AddTerms E a s)))))"
    if len: "length (colour_average_accels (self s)) = 3"
  proof -
    obtain g0 g1 g2 where g: "avgl a = (g0, g1, g2)"
      by (cases "avgl a") auto
    let ?s' = "s\<lparr>doc := indexed_doc E (make_coeff_terms (self s) a)
                         (colour_average_accels (self s)) [g0, g1, g2] (doc s)\<rparr>"
    have run: "AddTerms E a s = (Inr (), ?s')"
      using len g by (rule AddTerms_indexed)
    have "AddTerms E a ?s' = (Inr (), ?s'\<lparr>doc := indexed_doc E (make_coeff_terms (self ?s') a)
                         (colour_average_accels (self ?s')) [g0, g1, g2] (doc ?s')\<rparr>)"
      by (rule AddTerms_indexed) (simp_all add: len g)
    then have again: "AddTerms E a ?s' = (Inr (), ?s')"
      by (simp add: indexed_doc_idem)
    have "distinct (doc_terms (doc ?s'))" if "distinct (doc_terms (doc s))"
      using that by (simp add: indexed_doc_def distinct_fold_insort_insert del: fold_append)
    with run again show ?thesis by simp
  qed
  show ?thesis
    using make_coeff_terms_cong [of a b this] distinct_make_coeff_terms [of this a]
      set_make_coeff_terms [of this a] idem
    by blast
qed

text \<open>C7 at the sample signature, enumerated in another order and with repetitions, and
  indexed a second time.\<close>

theorem coeff_terms_set_semantics_witness:
  "make_coeff_terms sample_terms \<lparr>sig1 = [5, 0, 5, - 3, 0], sig2 = [2, 2], sig3 = [],
       avgl = (0.5, 0.0, - 0.1)\<rparr> = make_coeff_terms sample_terms sample_sig
   \<and> AddTerms sample_collaborators sample_sig \<lparr>self = sample_terms, doc = sample_doc\<rparr>
       = (Inr (), \<lparr>self = sample_terms, doc = sample_doc\<rparr>)"
proof -
  let ?a = "\<lparr>sig1 = [5, 0, 5, - 3, 0], sig2 = [2, 2], sig3 = [], avgl = (0.5, 0.0, - 0.1)\<rparr>"
  let ?s = "\<lparr>self = sample_terms, doc = empty_doc\<rparr>"
  have sets: "set (sig1 ?a) = set (sig1 sample_sig) \<and> set (sig2 ?a) = set (sig2 sample_sig)
      \<and> set (sig3 ?a) = set (sig3 sample_sig)"
    by (auto simp: sample_sig_def)
  have len: "length (colour_average_accels (self ?s)) = 3"
    by (simp add: sample_terms_fields)
  from coeff_terms_set_semantics [of ?a sample_sig sample_terms ?s sample_collaborators] sets
  have "make_coeff_terms sample_terms ?a = make_coeff_terms sample_terms sample_sig"
    by blast
  moreover
  from coeff_terms_set_semantics [of sample_sig sample_sig sample_terms ?s sample_collaborators] len
  have "AddTerms sample_collaborators sample_sig
      (snd (AddTerms sample_collaborators sample_sig ?s))
      = AddTerms sample_collaborators sample_sig ?s"
    by blast
  ultimately show ?thesis
    by (simp add: sample_AddTerms)
qed

subsection \<open>The three range accelerators\<close>




subsection \<open>What the operations change\<close>

text \<open>C9: the three query builders leave the state, the object and the document, as they
  found it. \<^verbatim>\<open>AddTerms\<close> leaves the object as it is and changes only the document: it removes
  no term, and it changes no stored field other than those of the object's accelerators,
  which are the three fields given to the constructor.\<close>

theorem only_AddTerms_mutates:
  "snd (make_coeff_query s) = s
   \<and> snd (make_averages_query E s) = s
   \<and> snd (querySimilar E ord s) = s
   \<and> self (snd (AddTerms E sig s)) = self s
   \<and> set (doc_terms (doc s)) \<subseteq> set (doc_terms (doc (snd (AddTerms E sig s))))
   \<and> (\<forall>slot. slot \<notin> acc_valnum ` set (colour_average_accels (self s)) \<longrightarrow>
         doc_values (doc (snd (AddTerms E sig s))) slot = doc_values (doc s) slot)
   \<and> acc_valnum ` set (colour_average_accels (ImgTerms_ctor E p v1 v2 v3)) = {v1, v2, v3}"
proof -
  have "grows (self s) (AddTerms E sig)"
    by (rule grows_AddTerms)
  then have "self (snd (AddTerms E sig s)) = self s
      \<and> set (doc_terms (doc s)) \<subseteq> set (doc_terms (doc (snd (AddTerms E sig s))))
      \<and> (\<forall>slot. slot \<notin> acc_valnum ` set (colour_average_accels (self s)) \<longrightarrow>
            doc_values (doc (snd (AddTerms E sig s))) slot = doc_values (doc s) slot)"
    unfolding grows_def by blast
  moreover have "snd (make_coeff_query s) = s" "snd (make_averages_query E s) = s"
    "snd (querySimilar E ord s) = s"
    using readonly_make_coeff_query readonly_make_averages_query readonly_querySimilar
    by (simp_all add: readonly_def)
  moreover have "acc_valnum ` set (colour_average_accels (ImgTerms_ctor E p v1 v2 v3)) = {v1, v2, v3}"
    by (simp add: ctor_fields)
  ultimately show ?thesis by blast
qed

text \<open>C9 at the sample configuration: field 7 is not touched, and querying leaves the
  indexed document as it is.\<close>

theorem only_AddTerms_mutates_witness:
  "doc_values (doc (snd (AddTerms sample_collaborators sample_sig
       \<lparr>self = sample_terms, doc = empty_doc\<rparr>))) 7 = None
   \<and> snd (querySimilar sample_collaborators CoeffFirst \<lparr>self = sample_terms, doc = sample_doc\<rparr>)
       = \<lparr>self = sample_terms, doc = sample_doc\<rparr>"
proof -
  have slot: "(7::nat) \<notin> acc_valnum ` set (colour_average_accels
      (self \<lparr>self = sample_terms, doc = empty_doc\<rparr>))"
    by (simp add: sample_terms_fields)
  have "doc_values (doc \<lparr>self = sample_terms, doc = empty_doc\<rparr>) 7 = None"
    by (simp add: empty_doc_def)
  with slot
    only_AddTerms_mutates [of "\<lparr>self = sample_terms, doc = empty_doc\<rparr>" sample_collaborators
      CoeffFirst sample_sig]
  have "doc_values (doc (snd (AddTerms sample_collaborators sample_sig
       \<lparr>self = sample_terms, doc = empty_doc\<rparr>))) 7 = None"
    by metis
  moreover have "snd (querySimilar sample_collaborators CoeffFirst
      \<lparr>self = sample_terms, doc = sample_doc\<rparr>) = \<lparr>self = sample_terms, doc = sample_doc\<rparr>"
    using only_AddTerms_mutates [of "\<lparr>self = sample_terms, doc = sample_doc\<rparr>"
        sample_collaborators CoeffFirst] by blast
  ultimately show ?thesis by blast
qed

subsection \<open>A document without coefficient terms\<close>

text \<open>C10, as the code has it: for a document with no term that starts with one of the three
  channel prefixes, \<^verbatim>\<open>make_coeff_query\<close> returns the empty query and raises nothing, and
  \<^verbatim>\<open>querySimilar\<close> returns the OR of the empty query with the averages query whenever the
  averages query can be built; when \<^verbatim>\<open>make_averages_query\<close> raises, \<^verbatim>\<open>querySimilar\<close> raises
  the same error.\<close>

theorem empty_coeff_query:
  assumes "\<forall>t \<in> set (doc_terms (doc s)). \<forall>c \<in> {0, 1, 2}.
             \<not> startswith t (colourprefix (self s) c)"
  shows "make_coeff_query s = (Inr EmptyQuery, s)
       \<and> (\<forall>ord. querySimilar E ord s =
            (case fst (make_averages_query E s) of
               Inl e \<Rightarrow> Inl e
             | Inr qa \<Rightarrow> Inr (OP_OR EmptyQuery qa), s))"
proof -
  have "scanned_terms (self s) (doc s) c = []" if "c \<in> {0, 1, 2}" for c
    using assms that by (intro scanned_terms_empty) blast
  then have q: "make_coeff_query s = (Inr EmptyQuery, s)"
    by (simp add: make_coeff_query_eq weighted_or_def)
  have "querySimilar E ord s =
      (case fst (make_averages_query E s) of
         Inl e \<Rightarrow> Inl e | Inr qa \<Rightarrow> Inr (OP_OR EmptyQuery qa), s)" for ord
    using q by (cases ord) (simp_all add: querySimilar_eq split: sum.splits)
  with q show ?thesis by blast
qed

text \<open>C10 at two documents with terms of which none starts with a channel prefix: with the
  three averages stored, both orders of evaluation give the OR of the empty query with the
  averages query; without stored averages, \<^verbatim>\<open>querySimilar\<close> raises the error of the averages
  builder.\<close>

theorem empty_coeff_query_witness:
  "make_coeff_query \<lparr>self = sample_terms, doc = averages_doc\<rparr>
     = (Inr EmptyQuery, \<lparr>self = sample_terms, doc = averages_doc\<rparr>)
   \<and> querySimilar sample_collaborators CoeffFirst \<lparr>self = sample_terms, doc = averages_doc\<rparr>
     = (Inr (OP_OR EmptyQuery
          (OP_OR (OP_OR (OP_OR EmptyQuery
             (OP_SCALE_WEIGHT (TermQuery ''imgA0'') 5.00))
             (OP_SCALE_WEIGHT (TermQuery ''imgA1'') 19.21))
             (OP_SCALE_WEIGHT (TermQuery ''imgA2'') 34.37))),
        \<lparr>self = sample_terms, doc = averages_doc\<rparr>)
   \<and> querySimilar sample_collaborators AveragesFirst \<lparr>self = sample_terms, doc = averages_doc\<rparr>
     = (Inr (OP_OR EmptyQuery
          (OP_OR (OP_OR (OP_OR EmptyQuery
             (OP_SCALE_WEIGHT (TermQuery ''imgA0'') 5.00))
             (OP_SCALE_WEIGHT (TermQuery ''imgA1'') 19.21))
             (OP_SCALE_WEIGHT (TermQuery ''imgA2'') 34.37))),
        \<lparr>self = sample_terms, doc = averages_doc\<rparr>)
   \<and> querySimilar sample_collaborators CoeffFirst \<lparr>self = sample_terms, doc = unindexed_doc\<rparr>
     = (Inl (InvalidArgumentError ''Bad encoded double: insufficient data''),
        \<lparr>self = sample_terms, doc = unindexed_doc\<rparr>)"
proof -
  let ?s = "\<lparr>self = sample_terms, doc = averages_doc\<rparr>"
  let ?u = "\<lparr>self = sample_terms, doc = unindexed_doc\<rparr>"
  have pre: "\<forall>t \<in> set (doc_terms (doc ?s)). \<forall>c \<in> {0, 1, 2}.
      \<not> startswith t (colourprefix (self ?s) c)"
    using no_channel_terms by (simp add: averages_doc_def)
  have pre_u: "\<forall>t \<in> set (doc_terms (doc ?u)). \<forall>c \<in> {0, 1, 2}.
      \<not> startswith t (colourprefix (self ?u) c)"
    using no_channel_terms by (simp add: unindexed_doc_def)
  from empty_coeff_query [OF pre, of sample_collaborators]
  have "make_coeff_query ?s = (Inr EmptyQuery, ?s)"
    and "querySimilar sample_collaborators CoeffFirst ?s =
      (case fst (make_averages_query sample_collaborators ?s) of
         Inl e \<Rightarrow> Inl e | Inr qa \<Rightarrow> Inr (OP_OR EmptyQuery qa), ?s)"
    and "querySimilar sample_collaborators AveragesFirst ?s =
      (case fst (make_averages_query sample_collaborators ?s) of
         Inl e \<Rightarrow> Inl e | Inr qa \<Rightarrow> Inr (OP_OR EmptyQuery qa), ?s)"
    by blast+
  moreover from empty_coeff_query [OF pre_u, of sample_collaborators]
  have "querySimilar sample_collaborators CoeffFirst ?u =
      (case fst (make_averages_query sample_collaborators ?u) of
         Inl e \<Rightarrow> Inl e | Inr qa \<Rightarrow> Inr (OP_OR EmptyQuery qa), ?u)"
    by blast
  ultimately show ?thesis
    by (simp add: averages_doc_query unindexed_doc_query)
qed

text \<open>C10 as stated fails: the empty document has no channel-prefixed term, its coefficient
  query is the empty query, and \<^verbatim>\<open>querySimilar\<close> does not succeed on it, since it has no
  stored averages.\<close>

theorem querySimilar_fails_without_averages:
  "doc_terms empty_doc = []
   \<and> fst (make_coeff_query \<lparr>self = sample_terms, doc = empty_doc\<rparr>) = Inr EmptyQuery
   \<and> fst (querySimilar sample_collaborators CoeffFirst \<lparr>self = sample_terms, doc = empty_doc\<rparr>)
       = Inl (InvalidArgumentError ''Bad encoded double: insufficient data'')
   \<and> fst (querySimilar sample_collaborators AveragesFirst \<lparr>self = sample_terms, doc = empty_doc\<rparr>)
       = Inl (InvalidArgumentError ''Bad encoded double: insufficient data'')"
proof -
  have a: "make_averages_query sample_collaborators \<lparr>self = sample_terms, doc = empty_doc\<rparr>
      = (Inl (InvalidArgumentError ''Bad encoded double: insufficient data''),
         \<lparr>self = sample_terms, doc = empty_doc\<rparr>)"
    by (rule averages_first_failure [where c = 0])
      (simp_all add: sample_terms_fields empty_doc_channel)
  have c: "make_coeff_query \<lparr>self = sample_terms, doc = empty_doc\<rparr>
      = (Inr EmptyQuery, \<lparr>self = sample_terms, doc = empty_doc\<rparr>)"
    by (simp add: make_coeff_query_eq scanned_terms_def skip_to_def empty_doc_def
        weighted_or_def)
  show ?thesis
    using a c by (simp add: querySimilar_eq) (simp add: empty_doc_def)
qed

end
